theory Spec2Isabelle
  imports Main
begin

section \<open>Strings\<close>

text \<open>
  JavaScript strings are modelled as \<open>string\<close>. The characters the source writes
  outside ASCII (the emoji and the rupee sign of the message templates) are the byte
  sequences of their UTF-8 encoding; every string operation the source applies
  (\<open>startsWith\<close> on ASCII prefixes, deleting the characters that are not ASCII digits,
  concatenation) reads the same on those bytes.
\<close>

fun startsWith :: "string \<Rightarrow> string \<Rightarrow> bool" where
  "startsWith s [] = True"
| "startsWith [] (c # p) = False"
| "startsWith (d # s) (c # p) = (d = c \<and> startsWith s p)"

text \<open>The regular expression \<open>/^10(?!000)/\<close>: the text starts with \<open>10\<close>, and what
  follows those two characters does not start with \<open>000\<close>.\<close>

definition regex_10_not_000 :: "string \<Rightarrow> bool" where
  "regex_10_not_000 s = (startsWith s ''10'' \<and> \<not> startsWith (drop 2 s) ''000'')"

section \<open>Courier classification (route.ts)\<close>

definition determineShippingPartner :: "string \<Rightarrow> string" where
  "determineShippingPartner trackingNumber =
    (if startsWith trackingNumber ''CT'' then ''INDIA POST''
     else if startsWith trackingNumber ''C1'' then ''DTDC''
     else if startsWith trackingNumber ''58'' then ''ST COURIER''
     else if startsWith trackingNumber ''500'' \<or> startsWith trackingNumber ''10000''
             \<or> regex_10_not_000 trackingNumber then ''TRACKON''
     else if startsWith trackingNumber ''SM'' then ''SINGPOST''
     else if startsWith trackingNumber ''33'' then ''ECOM''
     else if startsWith trackingNumber ''SR'' \<or> startsWith trackingNumber ''EP'' then ''EKART''
     else if startsWith trackingNumber ''14'' then ''XPRESSBEES''
     else if startsWith trackingNumber ''S'' \<or> startsWith trackingNumber ''1'' then ''SHIP ROCKET''
     else if startsWith trackingNumber ''7'' then ''DELHIVERY''
     else if startsWith trackingNumber ''JT'' then ''J&T''
     else if startsWith trackingNumber ''TRZ'' then ''PROFESSIONAL COURIER''
     else ''Unknown'')"

text \<open>The object literal \<open>urls\<close> of \<open>getTrackingUrl\<close>: its own properties, in the
  order of the source.\<close>

definition urls :: "(string \<times> string) list" where
  "urls =
    [(''INDIA POST'', ''https://www.indiapost.gov.in/_layouts/15/dop.portal.tracking/trackconsignment.aspx''),
     (''ST COURIER'', ''https://stcourier.com/track/shipment''),
     (''DTDC'', ''https://www.dtdc.in/track''),
     (''TRACKON'', ''https://trackon.in''),
     (''SHIP ROCKET'', ''https://www.shiprocket.in/shipment-tracking''),
     (''DELHIVERY'', ''https://www.delhivery.com/track/package''),
     (''ECOM'', ''https://ecomexpress.in/tracking''),
     (''EKART'', ''https://ekartlogistics.com/track''),
     (''XPRESSBEES'', ''https://www.xpressbees.com/track''),
     (''PROFESSIONAL COURIER'', ''https://www.tpcindia.com/'')]"

text \<open>
  \<open>urls[partner]\<close> reads an own property first and then the prototype chain of the
  object literal: a key that names a member of \<open>Object.prototype\<close> yields that member
  (a function or an object, truthy), so \<open>||\<close> does not reach the fallback there.
\<close>

definition Object_prototype_members :: "string list" where
  "Object_prototype_members =
    [''constructor'', ''__proto__'', ''hasOwnProperty'', ''isPrototypeOf'',
     ''propertyIsEnumerable'', ''toLocaleString'', ''toString'', ''valueOf'',
     ''__defineGetter__'', ''__defineSetter__'', ''__lookupGetter__'', ''__lookupSetter__'']"

datatype lookup_result = Url string | Inherited string

definition generic_tracking_url :: string where
  "generic_tracking_url = ''https://vaseegrahveda.com/tracking''"

definition getTrackingUrl :: "string \<Rightarrow> string \<Rightarrow> lookup_result" where
  "getTrackingUrl partner number =
    (case map_of urls partner of
       Some u \<Rightarrow> Url u
     | None \<Rightarrow>
         if partner \<in> set Object_prototype_members then Inherited partner
         else Url generic_tracking_url)"

section \<open>Thrown values and try/catch\<close>

text \<open>
  A value that a call throws (or a promise rejects with). JavaScript can throw any
  value: \<open>JsError name message\<close> is an instance of \<open>Error\<close>; \<open>JsValue message text\<close>
  is any other value that is neither \<open>null\<close> nor \<open>undefined\<close>, with its \<open>message\<close>
  property (a string, or \<open>None\<close> when it has none) and what \<open>String\<close> makes of the
  value; \<open>JsNull\<close> and \<open>JsUndefined\<close> are the two values on which a property read
  itself throws. A computation that may throw has the type \<open>thrown + 'a\<close>, with
  \<open>Inl\<close> for the throw.
\<close>

datatype thrown = JsError string string | JsValue "string option" string | JsNull | JsUndefined

definition new_Error :: "string \<Rightarrow> thrown" where
  "new_Error msg = JsError ''Error'' msg"

definition try_catch :: "thrown + 'a \<Rightarrow> (thrown \<Rightarrow> thrown + 'a) \<Rightarrow> thrown + 'a" where
  "try_catch body handler = (case body of Inl e \<Rightarrow> handler e | Inr v \<Rightarrow> Inr v)"

text \<open>Truthiness of a value that is a string, \<open>null\<close> or \<open>undefined\<close>.\<close>

fun truthy :: "string option \<Rightarrow> bool" where
  "truthy None = False"
| "truthy (Some s) = (s \<noteq> [])"

text \<open>Decimal rendering of an integer, as a template literal renders an integral
  number.\<close>

definition digit_char :: "nat \<Rightarrow> char" where
  "digit_char d = ''0123456789'' ! d"

function string_of_nat :: "nat \<Rightarrow> string" where
  "string_of_nat n =
    (if n < 10 then [digit_char n] else string_of_nat (n div 10) @ [digit_char (n mod 10)])"
  by pat_completeness auto
termination
  by (relation "measure id") auto

declare string_of_nat.simps [simp del]

definition string_of_int :: "int \<Rightarrow> string" where
  "string_of_int i = (if i < 0 then CHR ''-'' # string_of_nat (nat (- i)) else string_of_nat (nat i))"

section \<open>The glyphs of the message templates\<close>

definition receipt :: string where "receipt = [CHR 0xF0, CHR 0x9F, CHR 0xA7, CHR 0xBE]"
definition cart :: string where "cart = [CHR 0xF0, CHR 0x9F, CHR 0x9B, CHR 0x92]"
definition money_bag :: string where "money_bag = [CHR 0xF0, CHR 0x9F, CHR 0x92, CHR 0xB0]"
definition rupee :: string where "rupee = [CHR 0xE2, CHR 0x82, CHR 0xB9]"
definition truck :: string where "truck = [CHR 0xF0, CHR 0x9F, CHR 0x9A, CHR 0x9A]"
definition house :: string where "house = [CHR 0xF0, CHR 0x9F, CHR 0x8F, CHR 0xA0]"
definition folded_hands :: string where "folded_hands = [CHR 0xF0, CHR 0x9F, CHR 0x99, CHR 0x8F]"
definition round_pin :: string where "round_pin = [CHR 0xF0, CHR 0x9F, CHR 0x93, CHR 0x8D]"
definition clipboard :: string where "clipboard = [CHR 0xF0, CHR 0x9F, CHR 0x93, CHR 0x8B]"
definition calendar :: string where "calendar = [CHR 0xF0, CHR 0x9F, CHR 0x93, CHR 0x85]"
definition check_mark :: string where "check_mark = [CHR 0xE2, CHR 0x9C, CHR 0x85]"

section \<open>The notification helper (msg-whatsapp.ts)\<close>

text \<open>
  Numbers that the source only passes on or renders into a message (the amount, the
  bill number, a shipping cost) are of a type parameter \<open>'n\<close>, rendered by the runtime's
  number-to-string conversion, which is a parameter of the model: the source does no
  arithmetic on them. Identifiers, the HTTP status and the attempt counter are integers.
\<close>

record 'n shipping_method =
  sm_name :: string
  sm_type :: string
  sm_cost :: 'n

record 'n BillingWhatsAppParams =
  phone :: string
  companyName :: string
  products :: string
  amount :: 'n
  address :: string
  organisationId :: int
  billNo :: 'n
  shippingMethod :: "'n shipping_method option"

record fetch_request =
  req_url :: string
  req_method :: string
  req_content_type :: string
  req_authorization :: string
  req_body_phone :: string
  req_body_type :: string
  req_body_message :: string

text \<open>What \<open>res.json()\<close> resolves to: \<open>null\<close>, or a value whose \<open>message_id\<close>
  property is absent (\<open>None\<close>) or a string.\<close>

datatype response_data = JsonNull | JsonValue "string option"

record fetch_response =
  res_ok :: bool
  res_status :: int
  res_text :: "thrown + string"
  res_json :: "thrown + response_data"

text \<open>
  The collaborators that are not part of these two files, and the clock.
  \<open>getValidAccessToken\<close> (razorpayToken) and \<open>fetch\<close> may throw; a token is a string
  or absent.

  Modelled from the spec: \<open>splitAddressIntoThreeParts\<close> (lib/utils) is not among the
  sources; the spec has it as a pure function that always yields exactly three parts
  (possibly empty strings).
\<close>

record 'n runtime =
  getValidAccessToken :: "int \<Rightarrow> thrown + string option"
  splitAddressIntoThreeParts :: "string \<Rightarrow> string \<times> string \<times> string"
  fetch :: "fetch_request \<Rightarrow> thrown + fetch_response"
  numberToString :: "'n \<Rightarrow> string"
  toUpperCase :: "string \<Rightarrow> string"
  toISOString_now :: string
  toLocaleDateString_now :: string

datatype send_result =
  SendSuccess response_data "string option"
| SendFailure string string

fun success :: "send_result \<Rightarrow> bool" where
  "success (SendSuccess d m) = True"
| "success (SendFailure e t) = False"

text \<open>\<open>phone.replace(/[^\d]/g, '')\<close>: the characters that are not ASCII digits are
  deleted.\<close>

definition strip_non_digits :: "string \<Rightarrow> string" where
  "strip_non_digits s = filter (\<lambda>c. c \<in> set ''0123456789'') s"

text \<open>The shipping line (lines 44-46 and 165-167 of the source).\<close>

definition shipping_line :: "'n runtime \<Rightarrow> 'n shipping_method option \<Rightarrow> string" where
  "shipping_line rt sm =
    (case sm of
       Some m \<Rightarrow>
         ''\<newline>'' @ truck @ '' Shipping: '' @ sm_name m @ '' ('' @ sm_type m @ '') - ''
           @ rupee @ numberToString rt (sm_cost m)
     | None \<Rightarrow> '''')"

text \<open>The message of line 49, which is also the default template of line 177.\<close>

definition default_message ::
  "string \<Rightarrow> string \<Rightarrow> string \<Rightarrow> string \<Rightarrow> string \<Rightarrow> string \<Rightarrow> string \<Rightarrow> string \<Rightarrow> string" where
  "default_message company bill items amountText shippingLine line1 line2 line3 =
    receipt @ '' *'' @ company @ '' Bill #'' @ bill @ ''*\<newline>\<newline>''
    @ cart @ '' *Items:*\<newline>'' @ items @ ''\<newline>\<newline>''
    @ money_bag @ '' *Total:* '' @ rupee @ amountText @ shippingLine @ ''\<newline>\<newline>''
    @ house @ '' *Delivery Address:*\<newline>'' @ line1 @ ''\<newline>'' @ line2 @ ''\<newline>'' @ line3
    @ ''\<newline>\<newline>'' @ folded_hands @ '' Thank you for shopping with us!''"

text \<open>The message that \<open>sendBillingWhatsApp\<close> composes (lines 41-49).\<close>

definition billing_message :: "'n runtime \<Rightarrow> 'n BillingWhatsAppParams \<Rightarrow> string" where
  "billing_message rt p =
    (case splitAddressIntoThreeParts rt (address p) of
       (line1, line2, line3) \<Rightarrow>
         let shippingLine = shipping_line rt (shippingMethod p)
         in default_message (companyName p) (numberToString rt (billNo p)) (products p)
              (numberToString rt (amount p)) shippingLine line1 line2 line3)"

text \<open>The request of the \<open>fetch\<close> call (lines 58-69); the JSON body is kept as its
  three fields.\<close>

definition send_request :: "string \<Rightarrow> string \<Rightarrow> string \<Rightarrow> fetch_request" where
  "send_request accessToken formattedPhone message =
    \<lparr>req_url = ''https://app.gowhatsapp.in/api/v2/message/send'',
     req_method = ''POST'',
     req_content_type = ''application/json'',
     req_authorization = ''Bearer '' @ accessToken,
     req_body_phone = formattedPhone,
     req_body_type = ''text'',
     req_body_message = message\<rparr>"

text \<open>The body of the \<open>try\<close> block of \<open>sendBillingWhatsApp\<close>.\<close>

definition sendBillingWhatsApp_try :: "'n runtime \<Rightarrow> 'n BillingWhatsAppParams \<Rightarrow> thrown + send_result" where
  "sendBillingWhatsApp_try rt p =
    (case getValidAccessToken rt (organisationId p) of
       Inl e \<Rightarrow> Inl e
     | Inr accessToken \<Rightarrow>
         (case accessToken of
            None \<Rightarrow> Inl (new_Error ''No valid access token found for organisation'')
          | Some token \<Rightarrow>
              if token = [] then Inl (new_Error ''No valid access token found for organisation'')
              else
                let message = billing_message rt p;
                    formattedPhone = strip_non_digits (phone p)
                in
                  if length formattedPhone < 10 then Inl (new_Error ''Invalid phone number format'')
                  else
                    (case fetch rt (send_request token formattedPhone message) of
                       Inl e \<Rightarrow> Inl e
                     | Inr res \<Rightarrow>
                         if \<not> res_ok res then
                           (case res_text res of
                              Inl e \<Rightarrow> Inl e
                            | Inr errorText \<Rightarrow>
                                Inl (new_Error (''WhatsApp API error: ''
                                  @ string_of_int (res_status res) @ '' - '' @ errorText)))
                         else
                           (case res_json res of
                              Inl e \<Rightarrow> Inl e
                            | Inr responseData \<Rightarrow>
                                (case responseData of
                                   JsonNull \<Rightarrow>
                                     Inl (JsError ''TypeError''
                                       ''Cannot read properties of null (reading 'message_id')'')
                                 | JsonValue message_id \<Rightarrow>
                                     Inr (SendSuccess responseData
                                       (if truthy message_id then message_id else None)))))))"

text \<open>The \<open>catch\<close> block: \<open>error instanceof Error ? error.message : 'Unknown error occurred'\<close>.\<close>

fun catch_message :: "thrown \<Rightarrow> string" where
  "catch_message (JsError name message) = message"
| "catch_message (JsValue message v) = ''Unknown error occurred''"
| "catch_message JsNull = ''Unknown error occurred''"
| "catch_message JsUndefined = ''Unknown error occurred''"

definition sendBillingWhatsApp :: "'n runtime \<Rightarrow> 'n BillingWhatsAppParams \<Rightarrow> thrown + send_result" where
  "sendBillingWhatsApp rt p =
    try_catch (sendBillingWhatsApp_try rt p)
      (\<lambda>error. Inr (SendFailure (catch_message error) (toISOString_now rt)))"

subsection \<open>The retry wrapper\<close>

text \<open>\<open>lastError\<close>: not yet assigned, the \<open>error\<close> of a failure result, or a caught
  value; and how the template literal of the terminal error renders it
  (\<open>Error.prototype.toString\<close> for an error).\<close>

datatype last_error = Unassigned | ResultError string | Caught thrown

fun render_last_error :: "last_error \<Rightarrow> string" where
  "render_last_error Unassigned = ''undefined''"
| "render_last_error (ResultError s) = s"
| "render_last_error (Caught (JsError name message)) =
    (if message = [] then name else if name = [] then message else name @ '': '' @ message)"
| "render_last_error (Caught (JsValue message v)) = v"
| "render_last_error (Caught JsNull) = ''null''"
| "render_last_error (Caught JsUndefined) = ''undefined''"

text \<open>
  The \<open>for\<close> loop, from \<open>attempt\<close> on. \<open>send k\<close> is the outcome of the delivery call
  of attempt \<open>k\<close>; the loop returns what the wrapper returns or throws, the number of
  delivery calls made and the delays waited, in milliseconds.
\<close>

definition terminal_error :: "int \<Rightarrow> last_error \<Rightarrow> thrown" where
  "terminal_error maxRetries lastError =
    new_Error (''WhatsApp failed after '' @ string_of_int maxRetries
      @ '' attempts. Last error: '' @ render_last_error lastError)"

function retry_loop ::
  "(int \<Rightarrow> thrown + send_result) \<Rightarrow> int \<Rightarrow> int \<Rightarrow> last_error \<Rightarrow> nat \<Rightarrow> int list
    \<Rightarrow> (thrown + send_result) \<times> nat \<times> int list" where
  "retry_loop send maxRetries attempt lastError calls delays =
    (if attempt \<le> maxRetries then
       (case send attempt of
          Inr result \<Rightarrow>
            (case result of
               SendSuccess d m \<Rightarrow> (Inr result, Suc calls, delays)
             | SendFailure err ts \<Rightarrow>
                 retry_loop send maxRetries (attempt + 1) (ResultError err) (Suc calls)
                   (if attempt < maxRetries then delays @ [2 ^ nat attempt * 1000] else delays))
        | Inl error \<Rightarrow>
            retry_loop send maxRetries (attempt + 1) (Caught error) (Suc calls) delays)
     else
       (Inl (terminal_error maxRetries lastError), calls, delays))"
  by pat_completeness auto
termination
  by (relation "measure (\<lambda>(send, maxRetries, attempt, lastError, calls, delays). nat (maxRetries + 1 - attempt))") auto

declare retry_loop.simps [simp del]

text \<open>The wrapper with a given delivery call, and the wrapper of the source, whose
  delivery call is \<open>sendBillingWhatsApp\<close> in the runtime of each attempt. An absent
  \<open>maxRetries\<close> is 3.\<close>

definition attempt_limit :: "int option \<Rightarrow> int" where
  "attempt_limit maxRetries = (case maxRetries of None \<Rightarrow> 3 | Some m \<Rightarrow> m)"

definition retry_with ::
  "(int \<Rightarrow> thrown + send_result) \<Rightarrow> int option \<Rightarrow> (thrown + send_result) \<times> nat \<times> int list" where
  "retry_with send maxRetries =
    retry_loop send (attempt_limit maxRetries) 1 Unassigned 0 []"

definition sendBillingWhatsAppWithRetry ::
  "(int \<Rightarrow> 'n runtime) \<Rightarrow> 'n BillingWhatsAppParams \<Rightarrow> int option
    \<Rightarrow> (thrown + send_result) \<times> nat \<times> int list" where
  "sendBillingWhatsAppWithRetry rts p maxRetries =
    retry_with (\<lambda>attempt. sendBillingWhatsApp (rts attempt) p) maxRetries"

subsection \<open>formatBillingMessage\<close>

text \<open>
  The parameter object of \<open>formatBillingMessage\<close>. \<open>shippingMethod\<close> is absent or an
  object with the three fields that the shipping line reads; \<open>template\<close> is absent or
  any string, since nothing at run time restricts it to the three tags of its type.
  \<open>toUpperCase\<close> and the rendering of the current date are the runtime's.
\<close>

record 'n format_params =
  fm_companyName :: string
  fm_billNo :: string
  fm_products :: string
  fm_amount :: 'n
  fm_address :: string
  fm_shippingMethod :: "'n shipping_method option"
  template :: "string option"

definition formatBillingMessage :: "'n runtime \<Rightarrow> 'n format_params \<Rightarrow> string" where
  "formatBillingMessage rt p =
    (case splitAddressIntoThreeParts rt (fm_address p) of
       (line1, line2, line3) \<Rightarrow>
         let shippingLine = shipping_line rt (fm_shippingMethod p);
             tag = (case template p of None \<Rightarrow> ''default'' | Some t \<Rightarrow> t)
         in
           if tag = ''compact'' then
             receipt @ '' '' @ fm_companyName p @ '' Bill #'' @ fm_billNo p @ ''\<newline>''
             @ money_bag @ '' Total: '' @ rupee @ numberToString rt (fm_amount p) @ shippingLine
             @ ''\<newline>'' @ round_pin @ '' '' @ line1 @ ''\<newline>Thank you! '' @ folded_hands
           else if tag = ''detailed'' then
             receipt @ '' *INVOICE FROM '' @ toUpperCase rt (fm_companyName p) @ ''*\<newline>\<newline>''
             @ clipboard @ '' *Bill Number:* '' @ fm_billNo p @ ''\<newline>''
             @ calendar @ '' *Date:* '' @ toLocaleDateString_now rt @ ''\<newline>\<newline>''
             @ cart @ '' *ITEMS PURCHASED:*\<newline>'' @ fm_products p @ ''\<newline>\<newline>''
             @ money_bag @ '' *TOTAL AMOUNT:* '' @ rupee @ numberToString rt (fm_amount p)
             @ shippingLine @ ''\<newline>\<newline>''
             @ house @ '' *DELIVERY ADDRESS:*\<newline>'' @ line1 @ ''\<newline>'' @ line2 @ ''\<newline>'' @ line3
             @ ''\<newline>\<newline>'' @ check_mark @ '' *Order Status:* Confirmed\<newline>''
             @ folded_hands @ '' Thank you for choosing '' @ fm_companyName p @ ''!''
           else
             default_message (fm_companyName p) (fm_billNo p) (fm_products p)
               (numberToString rt (fm_amount p)) shippingLine line1 line2 line3)"

section \<open>The tracking-update workflow (route.ts, POST)\<close>

text \<open>
  The session carries \<open>session.user.id\<close>. The request body has the shape of the
  endpoint's interface: \<open>billId\<close>, \<open>trackingNumber\<close> and \<open>weight\<close> are strings or
  absent. A bill is the record that the query loads with its customer, items and
  organisation; the customer is optional (the source reads it with \<open>?.\<close>), the
  organisation and the product of an item are not. \<open>weight\<close> holds what \<open>parseFloat\<close>
  returns, a number of the type parameter \<open>'n\<close>.

  The table of bills is a list of records. The handler returns its response, the table
  afterwards, and the calls it made to the store's update and to the notification, in
  order.
\<close>

record session =
  user_id :: string

record tracking_body =
  billId :: "string option"
  body_trackingNumber :: "string option"
  body_weight :: "string option"

record customer =
  customer_phone :: "string option"

record product =
  product_name :: string

record item =
  item_product :: product

record organisation =
  shopName :: string

record 'n transaction_record =
  rec_id :: int
  companyBillNo :: int
  bill_organisationId :: int
  billingMode :: string
  trackingNumber :: "string option"
  weight :: "'n option"
  status :: string
  customer :: "customer option"
  items :: "item list"
  organisation :: organisation

record whatsapp_variables =
  var1 :: string
  var2 :: string
  var3 :: string
  var4 :: string
  var5 :: string
  var6 :: string
  var7 :: lookup_result
  var8 :: string

record order_status_args =
  os_phone :: string
  os_organisationId :: "int option"
  os_status :: string
  os_whatsappVariables :: whatsapp_variables

datatype 'n response_body =
  ErrorBody string
| SuccessBody "'n transaction_record"
| FailureBody string

datatype 'n response = Response int "'n response_body"

datatype 'n effect = Update int string "'n option" string | Notify order_status_args

text \<open>
  What the handler reads from outside: the session lookup and the parsing of the
  request body, which may throw; the built-in \<open>parseInt\<close> (\<open>None\<close> is \<open>NaN\<close>) and
  \<open>parseFloat\<close>; whether the store rejects the query or the update (the promise of
  the ORM call rejects); and the two functions of lib/whatsapp.

  Modelled from the spec: \<open>splitProducts\<close> and \<open>sendOrderStatusWhatsApp\<close>
  (lib/whatsapp) are not among the sources. The spec has \<open>splitProducts\<close> as a pure
  function from the product list to the message slots; the notification call either
  returns, with \<open>True\<close> when the message was delivered, or throws.
\<close>

record 'n handler_env =
  getServerSession :: "thrown + session option"
  request_json :: "thrown + tracking_body"
  parseInt :: "string \<Rightarrow> int option"
  parseFloat :: "string \<Rightarrow> 'n"
  findFirst_rejects :: "thrown option"
  update_rejects :: "thrown option"
  splitProducts :: "string \<Rightarrow> string list"
  sendOrderStatusWhatsApp :: "order_status_args \<Rightarrow> thrown + bool"

text \<open>\<open>Array.prototype.join\<close>.\<close>

fun join :: "string \<Rightarrow> string list \<Rightarrow> string" where
  "join sep [] = []"
| "join sep [x] = x"
| "join sep (x # y # ys) = x @ sep @ join sep (y # ys)"

text \<open>\<open>findFirst\<close> with the \<open>where\<close> clause of lines 54-57: the first record of the
  table with the given bill number and organisation; a \<open>NaN\<close> key matches no record.\<close>

definition findFirst ::
  "'n transaction_record list \<Rightarrow> int option \<Rightarrow> int option \<Rightarrow> 'n transaction_record option" where
  "findFirst db billNoKey organisationKey =
    find (\<lambda>b. Some (companyBillNo b) = billNoKey \<and> Some (bill_organisationId b) = organisationKey) db"

text \<open>The \<open>data\<close> of the update (lines 75-79) applied to a record, and the update of
  the record with a given \<open>id\<close> in the table.\<close>

definition apply_data :: "string \<Rightarrow> 'n option \<Rightarrow> 'n transaction_record \<Rightarrow> 'n transaction_record" where
  "apply_data tn w b = b\<lparr>trackingNumber := Some tn, weight := w, status := ''shipped''\<rparr>"

definition update_where_id ::
  "'n transaction_record list \<Rightarrow> int \<Rightarrow> string \<Rightarrow> 'n option \<Rightarrow> 'n transaction_record list" where
  "update_where_id db i tn w = map (\<lambda>b. if rec_id b = i then apply_data tn w b else b) db"

text \<open>\<open>weight ? parseFloat(weight) : null\<close>.\<close>

definition weight_data :: "'n handler_env \<Rightarrow> string option \<Rightarrow> 'n option" where
  "weight_data env w =
    (case w of None \<Rightarrow> None | Some t \<Rightarrow> if t = [] then None else Some (parseFloat env t))"

text \<open>The argument of the notification call (lines 89-112).\<close>

definition notification_args ::
  "'n handler_env \<Rightarrow> session \<Rightarrow> 'n transaction_record \<Rightarrow> string \<Rightarrow> string \<Rightarrow> string option
    \<Rightarrow> order_status_args" where
  "notification_args env sess updatedBill customerPhone tn w =
    (let organisationName = shopName (organisation updatedBill);
         productList = join '', '' (map (\<lambda>i. product_name (item_product i)) (items updatedBill));
         parts = splitProducts env productList;
         productsPart1 = (case parts of [] \<Rightarrow> '''' | a # rest \<Rightarrow> a);
         productsPart2 = (case parts of a # b # rest \<Rightarrow> b | _ \<Rightarrow> '''');
         shippingPartner = determineShippingPartner tn;
         trackingUrl = getTrackingUrl shippingPartner tn
     in \<lparr>os_phone = customerPhone,
         os_organisationId = parseInt env (user_id sess),
         os_status = ''shipped'',
         os_whatsappVariables =
           \<lparr>var1 = organisationName, var2 = productsPart1, var3 = productsPart2,
            var4 = shippingPartner, var5 = tn,
            var6 = (case w of None \<Rightarrow> '''' | Some t \<Rightarrow> if t = [] then '''' else t @ '' Kg''),
            var7 = trackingUrl, var8 = organisationName\<rparr>\<rparr>)"

text \<open>\<open>updatedBill.customer?.phone\<close>, when it is truthy.\<close>

definition customer_phone_of :: "'n transaction_record \<Rightarrow> string option" where
  "customer_phone_of b =
    (case customer b of
       None \<Rightarrow> None
     | Some c \<Rightarrow> if truthy (customer_phone c) then customer_phone c else None)"

text \<open>
  Steps 5 to 7, from the update on (lines 73-115): the outcome, the table afterwards
  and the calls made.
\<close>

definition mutate_and_notify ::
  "'n handler_env \<Rightarrow> session \<Rightarrow> 'n transaction_record \<Rightarrow> string \<Rightarrow> string option
    \<Rightarrow> 'n transaction_record list
    \<Rightarrow> (thrown + 'n response) \<times> 'n transaction_record list \<times> 'n effect list" where
  "mutate_and_notify env sess existingBill tn w db =
    (case update_rejects env of
       Some e \<Rightarrow> (Inl e, db, [])
     | None \<Rightarrow>
         let data_weight = weight_data env w;
             updatedBill = apply_data tn data_weight existingBill;
             db' = update_where_id db (rec_id existingBill) tn data_weight;
             updated = Update (rec_id existingBill) tn data_weight ''shipped''
         in
           (case customer_phone_of updatedBill of
              Some customerPhone \<Rightarrow>
                let args = notification_args env sess updatedBill customerPhone tn w
                in (case sendOrderStatusWhatsApp env args of
                      Inl e \<Rightarrow> (Inl e, db', [updated, Notify args])
                    | Inr delivered \<Rightarrow>
                        (Inr (Response 200 (SuccessBody updatedBill)), db', [updated, Notify args]))
            | None \<Rightarrow> (Inr (Response 200 (SuccessBody updatedBill)), db', [updated])))"

text \<open>Steps 3 to 7, from the query on (lines 53-115), for a bill number and a
  tracking number that are present and not empty.\<close>

definition load_and_update ::
  "'n handler_env \<Rightarrow> session \<Rightarrow> string \<Rightarrow> string \<Rightarrow> string option
    \<Rightarrow> 'n transaction_record list
    \<Rightarrow> (thrown + 'n response) \<times> 'n transaction_record list \<times> 'n effect list" where
  "load_and_update env sess bid tn w db =
    (case findFirst_rejects env of
       Some e \<Rightarrow> (Inl e, db, [])
     | None \<Rightarrow>
         (case findFirst db (parseInt env bid) (parseInt env (user_id sess)) of
            None \<Rightarrow> (Inr (Response 404 (ErrorBody ''Bill not found'')), db, [])
          | Some existingBill \<Rightarrow>
              if billingMode existingBill = ''offline'' then
                (Inr (Response 400 (ErrorBody ''Tracking cannot be added to offline bills.'')),
                 db, [])
              else mutate_and_notify env sess existingBill tn w db))"

text \<open>The body of the \<open>try\<close> block of \<open>POST\<close>. \<open>!billId || !trackingNumber\<close>
  holds when either is absent or the empty string.\<close>

definition POST_try ::
  "'n handler_env \<Rightarrow> 'n transaction_record list
    \<Rightarrow> (thrown + 'n response) \<times> 'n transaction_record list \<times> 'n effect list" where
  "POST_try env db =
    (case getServerSession env of
       Inl e \<Rightarrow> (Inl e, db, [])
     | Inr None \<Rightarrow> (Inr (Response 401 (ErrorBody ''Unauthorized'')), db, [])
     | Inr (Some sess) \<Rightarrow>
         (case request_json env of
            Inl e \<Rightarrow> (Inl e, db, [])
          | Inr body \<Rightarrow>
              let required =
                (Inr (Response 400 (ErrorBody ''Bill ID and tracking number are required'')), db, [])
              in
                (case billId body of
                   None \<Rightarrow> required
                 | Some bid \<Rightarrow>
                     if bid = [] then required
                     else
                       (case body_trackingNumber body of
                          None \<Rightarrow> required
                        | Some tn \<Rightarrow>
                            if tn = [] then required
                            else load_and_update env sess bid tn (body_weight body) db))))"

text \<open>
  The \<open>catch\<close> block (lines 116-119): \<open>error.message || 'Internal Error'\<close> with
  status 500. Reading \<open>message\<close> of a thrown \<open>null\<close> or \<open>undefined\<close> throws a
  \<open>TypeError\<close> inside the \<open>catch\<close> block: the handler then throws and returns no
  response.
\<close>

fun POST_catch :: "thrown \<Rightarrow> thrown + 'n response" where
  "POST_catch (JsError name message) =
    Inr (Response 500 (FailureBody (if message = [] then ''Internal Error'' else message)))"
| "POST_catch (JsValue message v) =
    Inr (Response 500 (FailureBody
      (case message of
         None \<Rightarrow> ''Internal Error''
       | Some m \<Rightarrow> if m = [] then ''Internal Error'' else m)))"
| "POST_catch JsNull =
    Inl (JsError ''TypeError'' ''Cannot read properties of null (reading 'message')'')"
| "POST_catch JsUndefined =
    Inl (JsError ''TypeError'' ''Cannot read properties of undefined (reading 'message')'')"

text \<open>The handler: what it returns (\<open>Inr\<close>, a response) or throws (\<open>Inl\<close>), the table
  afterwards and the calls made.\<close>

definition POST ::
  "'n handler_env \<Rightarrow> 'n transaction_record list
    \<Rightarrow> (thrown + 'n response) \<times> 'n transaction_record list \<times> 'n effect list" where
  "POST env db =
    (case POST_try env db of
       (Inl error, db', effects) \<Rightarrow> (POST_catch error, db', effects)
     | (Inr response, db', effects) \<Rightarrow> (Inr response, db', effects))"

section \<open>Example inputs\<close>

text \<open>Concrete runtimes, parameters, delivery calls and bills, at which the theorems
  below are instantiated.\<close>

definition ok_response :: fetch_response where
  "ok_response = \<lparr>res_ok = True, res_status = 200, res_text = Inr ''{}'',
     res_json = Inr (JsonValue (Some ''wamid-1''))\<rparr>"

definition example_runtime :: "int runtime" where
  "example_runtime =
    \<lparr>getValidAccessToken = (\<lambda>org. Inr (Some ''token-1'')),
     splitAddressIntoThreeParts = (\<lambda>a. (a, '''', '''')),
     fetch = (\<lambda>req. if req_body_phone req = ''919876543210'' then Inr ok_response
                      else Inl (JsValue None ''unexpected phone'')),
     numberToString = string_of_int,
     toUpperCase = (\<lambda>s. s),
     toISOString_now = ''2026-01-01T00:00:00.000Z'',
     toLocaleDateString_now = ''1/1/2026''\<rparr>"

definition example_params :: "int BillingWhatsAppParams" where
  "example_params =
    \<lparr>phone = ''+91 98765-43210'', companyName = ''Veda'', products = ''Soap x 2'',
     amount = 250, address = ''12 Main Road'', organisationId = 7, billNo = 41,
     shippingMethod = None\<rparr>"

definition unreadable_response :: fetch_response where
  "unreadable_response = \<lparr>res_ok = False, res_status = 502,
     res_text = Inl (JsError ''TypeError'' ''body stream already read''),
     res_json = Inl (JsError ''TypeError'' ''body stream already read'')\<rparr>"

definition unparsable_response :: fetch_response where
  "unparsable_response = \<lparr>res_ok = True, res_status = 200, res_text = Inr ''<html>'',
     res_json = Inl (JsError ''SyntaxError'' ''Unexpected token'')\<rparr>"

definition null_response :: fetch_response where
  "null_response = \<lparr>res_ok = True, res_status = 200, res_text = Inr ''null'',
     res_json = Inr JsonNull\<rparr>"

definition not_ok_response :: fetch_response where
  "not_ok_response = \<lparr>res_ok = False, res_status = 401, res_text = Inr ''unauthorized'',
     res_json = Inl (JsError ''SyntaxError'' ''Unexpected token'')\<rparr>"

definition flaky_runtimes :: "int \<Rightarrow> int runtime" where
  "flaky_runtimes attempt =
    (if attempt \<le> 2 then example_runtime\<lparr>getValidAccessToken := (\<lambda>org. Inr None)\<rparr>
     else example_runtime)"

definition down_runtimes :: "int \<Rightarrow> int runtime" where
  "down_runtimes attempt = example_runtime\<lparr>getValidAccessToken := (\<lambda>org. Inr None)\<rparr>"

definition flaky_stub :: "int \<Rightarrow> thrown + send_result" where
  "flaky_stub attempt =
    (if attempt \<le> 2 then Inr (SendFailure ''provider down'' ''2026-01-01T00:00:00.000Z'')
     else Inr (SendSuccess (JsonValue (Some ''wamid-1'')) (Some ''wamid-1'')))"

definition failing_stub :: "int \<Rightarrow> thrown + send_result" where
  "failing_stub attempt =
    (if attempt = 1 then Inl (JsError ''TypeError'' ''fetch failed'')
     else Inr (SendFailure ''provider down'' ''2026-01-01T00:00:00.000Z''))"

definition example_format_params :: "int format_params" where
  "example_format_params =
    \<lparr>fm_companyName = ''Veda'', fm_billNo = ''41'', fm_products = ''Soap x 2'',
     fm_amount = 250, fm_address = ''12 Main Road'', fm_shippingMethod = None,
     template = Some ''detailed''\<rparr>"

definition example_bill :: "int transaction_record" where
  "example_bill =
    \<lparr>rec_id = 10, companyBillNo = 41, bill_organisationId = 7, billingMode = ''online'',
     trackingNumber = None, weight = None, status = ''processing'',
     customer = Some \<lparr>customer_phone = Some ''919876543210''\<rparr>,
     items = [\<lparr>item_product = \<lparr>product_name = ''Soap''\<rparr>\<rparr>,
              \<lparr>item_product = \<lparr>product_name = ''Oil''\<rparr>\<rparr>],
     organisation = \<lparr>shopName = ''Veda''\<rparr>\<rparr>"

definition example_parseInt :: "string \<Rightarrow> int option" where
  "example_parseInt s = (if s = ''41'' then Some 41 else if s = ''7'' then Some 7 else None)"

definition example_env :: "int handler_env" where
  "example_env =
    \<lparr>getServerSession = Inr (Some \<lparr>user_id = ''7''\<rparr>),
     request_json = Inr \<lparr>billId = Some ''41'', body_trackingNumber = Some ''CT123'',
                       body_weight = None\<rparr>,
     parseInt = example_parseInt,
     parseFloat = (\<lambda>s. 0),
     findFirst_rejects = None,
     update_rejects = None,
     splitProducts = (\<lambda>s. [s]),
     sendOrderStatusWhatsApp = (\<lambda>args. Inr False)\<rparr>"

definition throwing_env :: "int handler_env" where
  "throwing_env =
    example_env\<lparr>sendOrderStatusWhatsApp := (\<lambda>args. Inl (JsError ''Error'' ''provider unreachable''))\<rparr>"

definition shipped_bill :: "int transaction_record" where
  "shipped_bill = example_bill\<lparr>trackingNumber := Some ''CT123'', weight := None, status := ''shipped''\<rparr>"

definition null_throwing_env :: "int handler_env" where
  "null_throwing_env = example_env\<lparr>sendOrderStatusWhatsApp := (\<lambda>args. Inl JsNull)\<rparr>"

definition undelivered_env :: "int handler_env" where
  "undelivered_env = example_env\<lparr>sendOrderStatusWhatsApp := (\<lambda>args. Inr False)\<rparr>"

definition offline_bill :: "int transaction_record" where
  "offline_bill = example_bill\<lparr>billingMode := ''offline''\<rparr>"

definition example_body :: tracking_body where
  "example_body = \<lparr>billId = Some ''41'', body_trackingNumber = Some ''CT123'', body_weight = None\<rparr>"

section \<open>The courier rules as an ordered table\<close>

text \<open>
  The classification as the specification words it: an ordered list of pairs of a
  predicate on the tracking number and a label, tried from the top, where the first
  predicate that holds decides, and \<open>Unknown\<close> when none holds. The table lists the
  prefixes of the specification in its order.
\<close>

definition courier_rule_table :: "((string \<Rightarrow> bool) \<times> string) list" where
  "courier_rule_table =
    [(\<lambda>s. startsWith s ''CT'', ''INDIA POST''),
     (\<lambda>s. startsWith s ''C1'', ''DTDC''),
     (\<lambda>s. startsWith s ''58'', ''ST COURIER''),
     (\<lambda>s. startsWith s ''500'' \<or> startsWith s ''10000'' \<or> regex_10_not_000 s, ''TRACKON''),
     (\<lambda>s. startsWith s ''SM'', ''SINGPOST''),
     (\<lambda>s. startsWith s ''33'', ''ECOM''),
     (\<lambda>s. startsWith s ''SR'' \<or> startsWith s ''EP'', ''EKART''),
     (\<lambda>s. startsWith s ''14'', ''XPRESSBEES''),
     (\<lambda>s. startsWith s ''S'' \<or> startsWith s ''1'', ''SHIP ROCKET''),
     (\<lambda>s. startsWith s ''7'', ''DELHIVERY''),
     (\<lambda>s. startsWith s ''JT'', ''J&T''),
     (\<lambda>s. startsWith s ''TRZ'', ''PROFESSIONAL COURIER'')]"

fun first_match :: "((string \<Rightarrow> bool) \<times> string) list \<Rightarrow> string \<Rightarrow> string" where
  "first_match [] s = ''Unknown''"
| "first_match ((matches, label) # rules) s = (if matches s then label else first_match rules s)"

section \<open>Predicates used to state the retry properties\<close>

definition succeeded :: "thrown + send_result \<Rightarrow> bool" where
  "succeeded outcome = (case outcome of Inl e \<Rightarrow> False | Inr r \<Rightarrow> success r)"

fun outcome_error :: "thrown + send_result \<Rightarrow> last_error" where
  "outcome_error (Inl e) = Caught e"
| "outcome_error (Inr (SendFailure err ts)) = ResultError err"
| "outcome_error (Inr (SendSuccess d m)) = Unassigned"

section \<open>Facts about prefixes\<close>

lemma startsWith_iff_append: "startsWith s p \<longleftrightarrow> (\<exists>r. s = p @ r)"
  by (induction s p rule: startsWith.induct) auto

lemma startsWith_append_same: "startsWith (p @ r) p"
  by (simp add: startsWith_iff_append)

lemma startsWith_literalE:
  assumes "startsWith s p"
  obtains r where "s = p @ r"
  using assms by (auto simp: startsWith_iff_append)

section \<open>Courier classification: the prefix rules\<close>

lemma determineShippingPartner_CT:
  "startsWith s ''CT'' \<Longrightarrow> determineShippingPartner s = ''INDIA POST''"
  by (simp add: determineShippingPartner_def)

lemma determineShippingPartner_C1:
  assumes "startsWith s ''C1''"
  shows "determineShippingPartner s = ''DTDC''"
proof -
  from assms obtain r where "s = ''C1'' @ r" by (rule startsWith_literalE)
  then show ?thesis by (simp add: determineShippingPartner_def)
qed

lemma determineShippingPartner_JT:
  assumes "startsWith s ''JT''"
  shows "determineShippingPartner s = ''J&T''"
proof -
  from assms obtain r where "s = ''JT'' @ r" by (rule startsWith_literalE)
  then show ?thesis by (simp add: determineShippingPartner_def regex_10_not_000_def)
qed

lemma determineShippingPartner_TRZ:
  assumes "startsWith s ''TRZ''"
  shows "determineShippingPartner s = ''PROFESSIONAL COURIER''"
proof -
  from assms obtain r where "s = ''TRZ'' @ r" by (rule startsWith_literalE)
  then show ?thesis by (simp add: determineShippingPartner_def regex_10_not_000_def)
qed

lemma determineShippingPartner_10:
  assumes "startsWith s ''10''"
  shows "determineShippingPartner s = ''TRACKON''"
proof -
  from assms obtain r where "s = ''10'' @ r" by (rule startsWith_literalE)
  then show ?thesis by (simp add: determineShippingPartner_def regex_10_not_000_def)
qed

lemma determineShippingPartner_Unknown_iff:
  "determineShippingPartner s = ''Unknown'' \<longleftrightarrow>
     \<not> (startsWith s ''CT'' \<or> startsWith s ''C1'' \<or> startsWith s ''58''
        \<or> startsWith s ''500'' \<or> startsWith s ''10000'' \<or> regex_10_not_000 s
        \<or> startsWith s ''SM'' \<or> startsWith s ''33''
        \<or> startsWith s ''SR'' \<or> startsWith s ''EP'' \<or> startsWith s ''14''
        \<or> startsWith s ''S'' \<or> startsWith s ''1'' \<or> startsWith s ''7''
        \<or> startsWith s ''JT'' \<or> startsWith s ''TRZ'')"
  by (simp add: determineShippingPartner_def)

lemma determineShippingPartner_range:
  "determineShippingPartner s \<in> set (map fst urls) \<union> {''SINGPOST'', ''J&T'', ''Unknown''}"
  by (simp add: determineShippingPartner_def urls_def)

lemma getTrackingUrl_unmapped:
  "getTrackingUrl ''SINGPOST'' n = Url generic_tracking_url"
  "getTrackingUrl ''J&T'' n = Url generic_tracking_url"
  "getTrackingUrl ''Unknown'' n = Url generic_tracking_url"
  by (simp_all add: getTrackingUrl_def urls_def Object_prototype_members_def)

lemma getTrackingUrl_mapped:
  assumes "(p, u) \<in> set urls"
  shows "getTrackingUrl p n = Url u \<and> u \<noteq> generic_tracking_url"
proof -
  have d: "distinct (map fst urls)" by (simp add: urls_def)
  from assms have "map_of urls p = Some u" using d by simp
  moreover have "u \<noteq> generic_tracking_url"
    using assms by (auto simp: urls_def generic_tracking_url_def)
  ultimately show ?thesis by (simp add: getTrackingUrl_def)
qed

text \<open>
  C3 (as stated, refuted). The tracking number \<open>10000\<close> is not matched by the regular
  expression \<open>/^10(?!000)/\<close>, but the same rule of the source also tests
  \<open>startsWith("10000")\<close>, so it does not fall through: it classifies as TRACKON.
\<close>

theorem determineShippingPartner_10000_is_TRACKON:
  "\<not> regex_10_not_000 ''10000'' \<and> determineShippingPartner ''10000'' = ''TRACKON''"
  by (simp add: determineShippingPartner_def regex_10_not_000_def)

text \<open>
  C3 (amended). \<open>10001\<close>, and every tracking number that matches \<open>10\<close> not followed
  by \<open>000\<close>, classifies as TRACKON; \<open>10000\<close> is not matched by that regular
  expression but by the explicit \<open>10000\<close> prefix test of the same rule, so every
  tracking number starting with \<open>10000\<close>, and hence every one starting with \<open>10\<close>,
  classifies as TRACKON too. The boundary inputs \<open>10\<close>, \<open>100\<close>, \<open>10000\<close> and
  \<open>100001\<close> are evaluated.
\<close>

theorem determineShippingPartner_numeric_TRACKON:
  "(regex_10_not_000 s \<longrightarrow> determineShippingPartner s = ''TRACKON'')
   \<and> (startsWith s ''10000'' \<longrightarrow> determineShippingPartner s = ''TRACKON'')
   \<and> (startsWith s ''10'' \<longrightarrow> determineShippingPartner s = ''TRACKON'')
   \<and> regex_10_not_000 ''10001'' \<and> determineShippingPartner ''10001'' = ''TRACKON''
   \<and> regex_10_not_000 ''10'' \<and> regex_10_not_000 ''100''
   \<and> \<not> regex_10_not_000 ''10000'' \<and> \<not> regex_10_not_000 ''100001''
   \<and> determineShippingPartner ''100001'' = ''TRACKON''"
proof -
  have a: "regex_10_not_000 s \<longrightarrow> determineShippingPartner s = ''TRACKON''"
    using determineShippingPartner_10 [of s] by (simp add: regex_10_not_000_def)
  have b: "startsWith s ''10000'' \<longrightarrow> determineShippingPartner s = ''TRACKON''"
  proof
    assume "startsWith s ''10000''"
    then obtain r where "s = ''10000'' @ r" by (rule startsWith_literalE)
    then have "startsWith s ''10''" by simp
    then show "determineShippingPartner s = ''TRACKON''" by (rule determineShippingPartner_10)
  qed
  have c: "startsWith s ''10'' \<longrightarrow> determineShippingPartner s = ''TRACKON''"
    using determineShippingPartner_10 [of s] by simp
  have d: "regex_10_not_000 ''10001''" "regex_10_not_000 ''10''" "regex_10_not_000 ''100''"
    "\<not> regex_10_not_000 ''10000''" "\<not> regex_10_not_000 ''100001''"
    by (simp_all add: regex_10_not_000_def)
  have e: "determineShippingPartner ''10001'' = ''TRACKON''"
    "determineShippingPartner ''100001'' = ''TRACKON''"
    by (simp_all add: determineShippingPartner_10)
  from a b c d e show ?thesis by simp
qed

theorem determineShippingPartner_numeric_TRACKON_witness:
  "regex_10_not_000 ''10009'' \<and> determineShippingPartner ''10009'' = ''TRACKON''
   \<and> startsWith ''100002'' ''10000'' \<and> determineShippingPartner ''100002'' = ''TRACKON''
   \<and> startsWith ''1000'' ''10'' \<and> determineShippingPartner ''1000'' = ''TRACKON''"
  using determineShippingPartner_numeric_TRACKON [of "''10009''"]
    determineShippingPartner_numeric_TRACKON [of "''100002''"]
    determineShippingPartner_numeric_TRACKON [of "''1000''"]
  by (simp add: regex_10_not_000_def)

lemma startsWith_take: "startsWith s p \<longleftrightarrow> take (length p) s = p"
  by (induction s p rule: startsWith.induct) auto

lemma determineShippingPartner_table:
  "determineShippingPartner s = first_match courier_rule_table s"
  by (simp add: determineShippingPartner_def courier_rule_table_def)

lemma determineShippingPartner_overlaps:
  "determineShippingPartner ''C1CT'' = ''DTDC''"
  "determineShippingPartner ''58001'' = ''ST COURIER''"
  "determineShippingPartner ''500123'' = ''TRACKON''"
  "determineShippingPartner ''SM123'' = ''SINGPOST''"
  "determineShippingPartner ''33441'' = ''ECOM''"
  "determineShippingPartner ''SR900'' = ''EKART''"
  "determineShippingPartner ''EP900'' = ''EKART''"
  "determineShippingPartner ''14001'' = ''XPRESSBEES''"
  "determineShippingPartner ''S9'' = ''SHIP ROCKET''"
  "determineShippingPartner ''1234'' = ''SHIP ROCKET''"
  "determineShippingPartner ''7001'' = ''DELHIVERY''"
  by (simp_all add: determineShippingPartner_def regex_10_not_000_def)

text \<open>
  C6. The prefix rules are tried in the order of the source and the first that matches
  decides: \<open>determineShippingPartner\<close> is the first match over the ordered table of the
  twelve rules, \<open>startsWith\<close> being the comparison of the first characters with the
  prefix. Every tracking number starting with \<open>CT\<close> is INDIA POST, with \<open>C1\<close> DTDC,
  with \<open>JT\<close> J&T, with \<open>TRZ\<close> PROFESSIONAL COURIER. The result is Unknown exactly
  when no rule matches (as for \<open>ZZ123\<close>), and the tracking URL of Unknown is the generic
  fallback URL. Where prefixes overlap the earlier rule wins: \<open>SM123\<close> is SINGPOST and
  \<open>14001\<close> XPRESSBEES, not SHIP ROCKET.
\<close>

theorem determineShippingPartner_first_match:
  "determineShippingPartner s = first_match courier_rule_table s
   \<and> startsWith s p = (take (length p) s = p)
   \<and> (startsWith s ''CT'' \<longrightarrow> determineShippingPartner s = ''INDIA POST'')
   \<and> (startsWith s ''C1'' \<longrightarrow> determineShippingPartner s = ''DTDC'')
   \<and> (startsWith s ''JT'' \<longrightarrow> determineShippingPartner s = ''J&T'')
   \<and> (startsWith s ''TRZ'' \<longrightarrow> determineShippingPartner s = ''PROFESSIONAL COURIER'')
   \<and> (determineShippingPartner s = ''Unknown'') =
       (\<not> (startsWith s ''CT'' \<or> startsWith s ''C1'' \<or> startsWith s ''58''
          \<or> startsWith s ''500'' \<or> startsWith s ''10000'' \<or> regex_10_not_000 s
          \<or> startsWith s ''SM'' \<or> startsWith s ''33''
          \<or> startsWith s ''SR'' \<or> startsWith s ''EP'' \<or> startsWith s ''14''
          \<or> startsWith s ''S'' \<or> startsWith s ''1'' \<or> startsWith s ''7''
          \<or> startsWith s ''JT'' \<or> startsWith s ''TRZ''))
   \<and> determineShippingPartner ''ZZ123'' = ''Unknown''
   \<and> getTrackingUrl ''Unknown'' n = Url ''https://vaseegrahveda.com/tracking''
   \<and> determineShippingPartner ''C1CT'' = ''DTDC''
   \<and> determineShippingPartner ''58001'' = ''ST COURIER''
   \<and> determineShippingPartner ''500123'' = ''TRACKON''
   \<and> determineShippingPartner ''SM123'' = ''SINGPOST''
   \<and> determineShippingPartner ''33441'' = ''ECOM''
   \<and> determineShippingPartner ''SR900'' = ''EKART''
   \<and> determineShippingPartner ''EP900'' = ''EKART''
   \<and> determineShippingPartner ''14001'' = ''XPRESSBEES''
   \<and> determineShippingPartner ''S9'' = ''SHIP ROCKET''
   \<and> determineShippingPartner ''1234'' = ''SHIP ROCKET''
   \<and> determineShippingPartner ''7001'' = ''DELHIVERY''"
proof -
  have z: "determineShippingPartner ''ZZ123'' = ''Unknown''"
    by (simp add: determineShippingPartner_def regex_10_not_000_def)
  have u: "getTrackingUrl ''Unknown'' n = Url ''https://vaseegrahveda.com/tracking''"
    using getTrackingUrl_unmapped(3) [of n] by (simp add: generic_tracking_url_def)
  have four: "startsWith s ''CT'' \<longrightarrow> determineShippingPartner s = ''INDIA POST''"
    "startsWith s ''C1'' \<longrightarrow> determineShippingPartner s = ''DTDC''"
    "startsWith s ''JT'' \<longrightarrow> determineShippingPartner s = ''J&T''"
    "startsWith s ''TRZ'' \<longrightarrow> determineShippingPartner s = ''PROFESSIONAL COURIER''"
    using determineShippingPartner_CT [of s] determineShippingPartner_C1 [of s]
      determineShippingPartner_JT [of s] determineShippingPartner_TRZ [of s]
    by blast+
  show ?thesis
    by (intro conjI determineShippingPartner_table startsWith_take four
        determineShippingPartner_Unknown_iff z u determineShippingPartner_overlaps)
qed

theorem determineShippingPartner_first_match_witness:
  "startsWith ''CT123456789IN'' ''CT'' \<and> determineShippingPartner ''CT123456789IN'' = ''INDIA POST''
   \<and> startsWith ''C1500'' ''C1'' \<and> determineShippingPartner ''C1500'' = ''DTDC''
   \<and> startsWith ''JT0001'' ''JT'' \<and> determineShippingPartner ''JT0001'' = ''J&T''
   \<and> startsWith ''TRZ42'' ''TRZ'' \<and> determineShippingPartner ''TRZ42'' = ''PROFESSIONAL COURIER''
   \<and> determineShippingPartner ''AB7'' = ''Unknown''
   \<and> first_match courier_rule_table ''SM123'' = ''SINGPOST''
   \<and> first_match courier_rule_table ''14001'' = ''XPRESSBEES''
   \<and> \<not> startsWith ''C'' ''CT''"
proof -
  have h: "startsWith ''CT123456789IN'' ''CT''" "startsWith ''C1500'' ''C1''"
    "startsWith ''JT0001'' ''JT''" "startsWith ''TRZ42'' ''TRZ''" "\<not> startsWith ''C'' ''CT''"
    by simp_all
  have a: "determineShippingPartner ''CT123456789IN'' = ''INDIA POST''"
    using determineShippingPartner_first_match [of "''CT123456789IN''"] h(1) by blast
  have b: "determineShippingPartner ''C1500'' = ''DTDC''"
    using determineShippingPartner_first_match [of "''C1500''"] h(2) by blast
  have c: "determineShippingPartner ''JT0001'' = ''J&T''"
    using determineShippingPartner_first_match [of "''JT0001''"] h(3) by blast
  have d: "determineShippingPartner ''TRZ42'' = ''PROFESSIONAL COURIER''"
    using determineShippingPartner_first_match [of "''TRZ42''"] h(4) by blast
  have e: "determineShippingPartner ''AB7'' = ''Unknown''"
    using determineShippingPartner_first_match [of "''AB7''"]
    by (simp add: regex_10_not_000_def courier_rule_table_def)
  have f: "first_match courier_rule_table ''SM123'' = ''SINGPOST''"
    using determineShippingPartner_first_match [of "''SM123''"]
    by (simp add: regex_10_not_000_def courier_rule_table_def)
  have g: "first_match courier_rule_table ''14001'' = ''XPRESSBEES''"
    using determineShippingPartner_first_match [of "''14001''"]
    by (simp add: regex_10_not_000_def courier_rule_table_def)
  from h a b c d e f g show ?thesis by (intro conjI)
qed

text \<open>
  C8 (as stated, refuted). SINGPOST is a courier label that the classification returns
  (for \<open>SM123\<close>), and the URL table has no entry for it: its tracking URL is the generic
  fallback.
\<close>

theorem getTrackingUrl_SINGPOST_is_fallback:
  "determineShippingPartner ''SM123'' = ''SINGPOST''
   \<and> getTrackingUrl ''SINGPOST'' ''SM123'' = Url ''https://vaseegrahveda.com/tracking''"
  by (simp add: determineShippingPartner_def regex_10_not_000_def getTrackingUrl_def urls_def
      Object_prototype_members_def generic_tracking_url_def)

text \<open>
  C8 (amended). A label the classification returns is either one of the ten labels of
  the URL table, and then \<open>getTrackingUrl\<close> returns that label's own URL, which is not the
  generic one (the ten URLs are pairwise distinct); or it is SINGPOST, J&T or Unknown,
  which the table does not hold, and then the result is the generic fallback URL.
\<close>

theorem getTrackingUrl_of_classified:
  assumes "p = determineShippingPartner s"
  shows "((p \<in> {''SINGPOST'', ''J&T'', ''Unknown''} \<and> getTrackingUrl p n = Url generic_tracking_url)
          \<or> (\<exists>u. (p, u) \<in> set urls \<and> getTrackingUrl p n = Url u \<and> u \<noteq> generic_tracking_url))
         \<and> distinct (map fst urls) \<and> distinct (map snd urls)"
proof -
  from determineShippingPartner_range [of s] assms
  consider "p \<in> {''SINGPOST'', ''J&T'', ''Unknown''}" | "p \<in> set (map fst urls)" by auto
  then have "(p \<in> {''SINGPOST'', ''J&T'', ''Unknown''} \<and> getTrackingUrl p n = Url generic_tracking_url)
          \<or> (\<exists>u. (p, u) \<in> set urls \<and> getTrackingUrl p n = Url u \<and> u \<noteq> generic_tracking_url)"
  proof cases
    case 1
    then show ?thesis using getTrackingUrl_unmapped [of n] by auto
  next
    case 2
    then obtain u where "(p, u) \<in> set urls" by auto
    with getTrackingUrl_mapped [of p u n] show ?thesis by blast
  qed
  moreover have "distinct (map fst urls)" "distinct (map snd urls)"
    by (simp_all add: urls_def)
  ultimately show ?thesis by simp
qed

theorem getTrackingUrl_of_classified_witness:
  "determineShippingPartner ''C1500'' = ''DTDC''
   \<and> getTrackingUrl ''DTDC'' ''C1500'' = Url ''https://www.dtdc.in/track''
   \<and> determineShippingPartner ''JT0001'' = ''J&T''
   \<and> getTrackingUrl ''J&T'' ''JT0001'' = Url ''https://vaseegrahveda.com/tracking''"
proof -
  have a: "determineShippingPartner ''C1500'' = ''DTDC''"
    and b: "determineShippingPartner ''JT0001'' = ''J&T''"
    by (simp_all add: determineShippingPartner_def regex_10_not_000_def)
  have c: "getTrackingUrl ''DTDC'' ''C1500'' = Url ''https://www.dtdc.in/track''"
    and d: "getTrackingUrl ''J&T'' ''JT0001'' = Url ''https://vaseegrahveda.com/tracking''"
    by (simp_all add: getTrackingUrl_def urls_def Object_prototype_members_def
        generic_tracking_url_def)
  show ?thesis
    using getTrackingUrl_of_classified [OF a [symmetric], of "''C1500''"]
      getTrackingUrl_of_classified [OF b [symmetric], of "''JT0001''"]
    by (intro conjI) (rule a b c d)+
qed

text \<open>
  C10. The result of \<open>getTrackingUrl\<close> depends on the courier label alone: for every
  label and any two tracking numbers the results are equal, so no result embeds the
  tracking number.
\<close>

theorem getTrackingUrl_ignores_number:
  "getTrackingUrl p n1 = getTrackingUrl p n2"
  by (simp add: getTrackingUrl_def)

theorem getTrackingUrl_ignores_number_witness:
  "getTrackingUrl ''TRACKON'' ''10001'' = getTrackingUrl ''TRACKON'' ''500777''"
  by (rule getTrackingUrl_ignores_number)

section \<open>The delivery call\<close>

lemma try_catch_total:
  "(\<And>e. \<exists>r. handler e = Inr r) \<Longrightarrow> \<exists>r. try_catch body handler = Inr r"
  by (cases body) (auto simp: try_catch_def)

lemma sendBillingWhatsApp_returns: "\<exists>r. sendBillingWhatsApp rt p = Inr r"
  unfolding sendBillingWhatsApp_def by (rule try_catch_total) simp

lemma sendBillingWhatsApp_caught:
  "sendBillingWhatsApp_try rt p = Inl e \<Longrightarrow>
   sendBillingWhatsApp rt p = Inr (SendFailure (catch_message e) (toISOString_now rt))"
  by (simp add: sendBillingWhatsApp_def try_catch_def)

lemma try_token_throws:
  "getValidAccessToken rt (organisationId p) = Inl e \<Longrightarrow> sendBillingWhatsApp_try rt p = Inl e"
  by (simp add: sendBillingWhatsApp_try_def)

lemma try_token_missing:
  "getValidAccessToken rt (organisationId p) = Inr tok \<Longrightarrow> \<not> truthy tok \<Longrightarrow>
   sendBillingWhatsApp_try rt p = Inl (new_Error ''No valid access token found for organisation'')"
  by (cases tok) (simp_all add: sendBillingWhatsApp_try_def)

lemma try_phone_short:
  "getValidAccessToken rt (organisationId p) = Inr (Some token) \<Longrightarrow> token \<noteq> [] \<Longrightarrow>
   length (strip_non_digits (phone p)) < 10 \<Longrightarrow>
   sendBillingWhatsApp_try rt p = Inl (new_Error ''Invalid phone number format'')"
  by (simp add: sendBillingWhatsApp_try_def Let_def)

lemma try_phone_short_any:
  assumes "length (strip_non_digits (phone p)) < 10"
  shows "\<exists>e. sendBillingWhatsApp_try rt p = Inl e"
proof (cases "getValidAccessToken rt (organisationId p)")
  case (Inl e)
  then show ?thesis by (simp add: try_token_throws)
next
  case (Inr tok)
  show ?thesis
  proof (cases "truthy tok")
    case False
    with Inr show ?thesis by (simp add: try_token_missing)
  next
    case True
    then obtain token where "tok = Some token" "token \<noteq> []" by (cases tok) auto
    with Inr assms show ?thesis by (simp add: try_phone_short)
  qed
qed

lemma sendBillingWhatsApp_after_validation:
  assumes "getValidAccessToken rt (organisationId p) = Inr (Some token)" and "token \<noteq> []"
    and "\<not> length (strip_non_digits (phone p)) < 10"
  shows "sendBillingWhatsApp rt p =
    (case fetch rt (send_request token (strip_non_digits (phone p)) (billing_message rt p)) of
       Inl e \<Rightarrow> Inr (SendFailure (catch_message e) (toISOString_now rt))
     | Inr res \<Rightarrow>
         if \<not> res_ok res then
           (case res_text res of
              Inl e \<Rightarrow> Inr (SendFailure (catch_message e) (toISOString_now rt))
            | Inr errorText \<Rightarrow>
                Inr (SendFailure
                  (''WhatsApp API error: '' @ string_of_int (res_status res) @ '' - '' @ errorText)
                  (toISOString_now rt)))
         else
           (case res_json res of
              Inl e \<Rightarrow> Inr (SendFailure (catch_message e) (toISOString_now rt))
            | Inr JsonNull \<Rightarrow>
                Inr (SendFailure ''Cannot read properties of null (reading 'message_id')''
                  (toISOString_now rt))
            | Inr (JsonValue mid) \<Rightarrow>
                Inr (SendSuccess (JsonValue mid) (if truthy mid then mid else None))))"
  using assms
  by (simp add: sendBillingWhatsApp_def try_catch_def sendBillingWhatsApp_try_def Let_def
      new_Error_def split: sum.splits response_data.splits)

text \<open>
  C4. \<open>sendBillingWhatsApp\<close> never throws to its caller: it always returns a result.
  Every failure cause yields a failure result (success flag false) with a message and
  the timestamp: a token provider that throws, a missing access token, a phone with
  fewer than 10 digits after every character that is not a digit is deleted, a
  \<open>fetch\<close> that throws, a non-success HTTP status (whether or not the response text
  can be read), a response body that cannot be parsed or is \<open>null\<close>. The message is
  the thrown error's own message, and \<open>Unknown error occurred\<close> for a thrown value
  that is not an error. A request that passes these checks and gets a successful
  response yields the success result. The phone \<open>+91 98765-43210\<close> normalizes to the 12
  digits \<open>919876543210\<close>; the phone \<open>12345\<close> always yields a failure result.
\<close>

theorem sendBillingWhatsApp_never_throws:
  "(\<exists>r. sendBillingWhatsApp rt p = Inr r)
   \<and> (\<forall>e. getValidAccessToken rt (organisationId p) = Inl e \<longrightarrow>
         sendBillingWhatsApp rt p = Inr (SendFailure (catch_message e) (toISOString_now rt)))
   \<and> (\<forall>tok. getValidAccessToken rt (organisationId p) = Inr tok \<and> \<not> truthy tok \<longrightarrow>
         sendBillingWhatsApp rt p = Inr (SendFailure ''No valid access token found for organisation'' (toISOString_now rt)))
   \<and> (length (strip_non_digits (phone p)) < 10 \<longrightarrow>
         (\<exists>msg. sendBillingWhatsApp rt p = Inr (SendFailure msg (toISOString_now rt))))
   \<and> (\<forall>token. getValidAccessToken rt (organisationId p) = Inr (Some token) \<and> token \<noteq> []
         \<and> length (strip_non_digits (phone p)) < 10 \<longrightarrow>
         sendBillingWhatsApp rt p = Inr (SendFailure ''Invalid phone number format'' (toISOString_now rt)))
   \<and> (\<forall>token e. getValidAccessToken rt (organisationId p) = Inr (Some token) \<and> token \<noteq> []
         \<and> \<not> length (strip_non_digits (phone p)) < 10
         \<and> fetch rt (send_request token (strip_non_digits (phone p)) (billing_message rt p)) = Inl e \<longrightarrow>
         sendBillingWhatsApp rt p = Inr (SendFailure (catch_message e) (toISOString_now rt)))
   \<and> (\<forall>token res errorText. getValidAccessToken rt (organisationId p) = Inr (Some token) \<and> token \<noteq> []
         \<and> \<not> length (strip_non_digits (phone p)) < 10
         \<and> fetch rt (send_request token (strip_non_digits (phone p)) (billing_message rt p)) = Inr res
         \<and> \<not> res_ok res \<and> res_text res = Inr errorText \<longrightarrow>
         sendBillingWhatsApp rt p = Inr (SendFailure (''WhatsApp API error: '' @ string_of_int (res_status res) @ '' - '' @ errorText) (toISOString_now rt)))
   \<and> (\<forall>token res e. getValidAccessToken rt (organisationId p) = Inr (Some token) \<and> token \<noteq> []
         \<and> \<not> length (strip_non_digits (phone p)) < 10
         \<and> fetch rt (send_request token (strip_non_digits (phone p)) (billing_message rt p)) = Inr res
         \<and> \<not> res_ok res \<and> res_text res = Inl e \<longrightarrow>
         sendBillingWhatsApp rt p = Inr (SendFailure (catch_message e) (toISOString_now rt)))
   \<and> (\<forall>token res. getValidAccessToken rt (organisationId p) = Inr (Some token) \<and> token \<noteq> []
         \<and> \<not> length (strip_non_digits (phone p)) < 10
         \<and> fetch rt (send_request token (strip_non_digits (phone p)) (billing_message rt p)) = Inr res
         \<and> \<not> res_ok res \<longrightarrow>
         (\<exists>msg. sendBillingWhatsApp rt p = Inr (SendFailure msg (toISOString_now rt))))
   \<and> (\<forall>token res e. getValidAccessToken rt (organisationId p) = Inr (Some token) \<and> token \<noteq> []
         \<and> \<not> length (strip_non_digits (phone p)) < 10
         \<and> fetch rt (send_request token (strip_non_digits (phone p)) (billing_message rt p)) = Inr res
         \<and> res_ok res \<and> res_json res = Inl e \<longrightarrow>
         sendBillingWhatsApp rt p = Inr (SendFailure (catch_message e) (toISOString_now rt)))
   \<and> (\<forall>token res. getValidAccessToken rt (organisationId p) = Inr (Some token) \<and> token \<noteq> []
         \<and> \<not> length (strip_non_digits (phone p)) < 10
         \<and> fetch rt (send_request token (strip_non_digits (phone p)) (billing_message rt p)) = Inr res
         \<and> res_ok res \<and> res_json res = Inr JsonNull \<longrightarrow>
         sendBillingWhatsApp rt p = Inr (SendFailure ''Cannot read properties of null (reading 'message_id')'' (toISOString_now rt)))
   \<and> (\<forall>token res mid. getValidAccessToken rt (organisationId p) = Inr (Some token) \<and> token \<noteq> []
         \<and> \<not> length (strip_non_digits (phone p)) < 10
         \<and> fetch rt (send_request token (strip_non_digits (phone p)) (billing_message rt p)) = Inr res
         \<and> res_ok res \<and> res_json res = Inr (JsonValue mid) \<longrightarrow>
         sendBillingWhatsApp rt p =
           Inr (SendSuccess (JsonValue mid) (if truthy mid then mid else None)))
   \<and> (\<forall>name message v. catch_message (JsError name message) = message
         \<and> catch_message (JsValue (Some message) v) = ''Unknown error occurred''
         \<and> catch_message (JsValue None v) = ''Unknown error occurred''
         \<and> catch_message JsNull = ''Unknown error occurred''
         \<and> catch_message JsUndefined = ''Unknown error occurred'')
   \<and> (\<forall>c s. strip_non_digits [] = []
         \<and> strip_non_digits (c # s) =
             (if c \<in> set ''0123456789'' then c # strip_non_digits s else strip_non_digits s))
   \<and> (\<forall>token digits message.
         req_body_phone (send_request token digits message) = digits
         \<and> req_body_message (send_request token digits message) = message
         \<and> req_authorization (send_request token digits message) = ''Bearer '' @ token)
   \<and> strip_non_digits ''+91 98765-43210'' = ''919876543210''
         \<and> length (strip_non_digits ''+91 98765-43210'') = 12
   \<and> (phone p = ''12345'' \<longrightarrow>
         (\<exists>msg. sendBillingWhatsApp rt p = Inr (SendFailure msg (toISOString_now rt))))"
proof -
  have rejects: "\<exists>msg. sendBillingWhatsApp rt p = Inr (SendFailure msg (toISOString_now rt))"
    if "length (strip_non_digits (phone p)) < 10"
  proof -
    from try_phone_short_any [OF that] obtain e where "sendBillingWhatsApp_try rt p = Inl e" ..
    then show ?thesis by (auto dest: sendBillingWhatsApp_caught)
  qed
  note unfolded = sendBillingWhatsApp_after_validation [of rt p]
  have returns: "(\<exists>r. sendBillingWhatsApp rt p = Inr r)"
    by (rule sendBillingWhatsApp_returns)
  have token_throws: "(\<forall>e. getValidAccessToken rt (organisationId p) = Inl e \<longrightarrow>
           sendBillingWhatsApp rt p = Inr (SendFailure (catch_message e) (toISOString_now rt)))"
    by (simp add: sendBillingWhatsApp_def try_catch_def sendBillingWhatsApp_try_def)
  have token_missing: "(\<forall>tok. getValidAccessToken rt (organisationId p) = Inr tok \<and> \<not> truthy tok \<longrightarrow>
           sendBillingWhatsApp rt p = Inr (SendFailure ''No valid access token found for organisation'' (toISOString_now rt)))"
    using sendBillingWhatsApp_caught [OF try_token_missing, of rt p]
    by (simp add: new_Error_def)
  have short_any: "(length (strip_non_digits (phone p)) < 10 \<longrightarrow>
           (\<exists>msg. sendBillingWhatsApp rt p = Inr (SendFailure msg (toISOString_now rt))))"
    using rejects by simp
  have short: "(\<forall>token. getValidAccessToken rt (organisationId p) = Inr (Some token) \<and> token \<noteq> []
           \<and> length (strip_non_digits (phone p)) < 10 \<longrightarrow>
           sendBillingWhatsApp rt p = Inr (SendFailure ''Invalid phone number format'' (toISOString_now rt)))"
    using sendBillingWhatsApp_caught [OF try_phone_short, of rt p]
    by (simp add: new_Error_def)
  have fetch_throws: "(\<forall>token e. getValidAccessToken rt (organisationId p) = Inr (Some token) \<and> token \<noteq> []
           \<and> \<not> length (strip_non_digits (phone p)) < 10
           \<and> fetch rt (send_request token (strip_non_digits (phone p)) (billing_message rt p)) = Inl e \<longrightarrow>
           sendBillingWhatsApp rt p = Inr (SendFailure (catch_message e) (toISOString_now rt)))"
    by (simp add: unfolded)
  have not_ok: "(\<forall>token res errorText. getValidAccessToken rt (organisationId p) = Inr (Some token) \<and> token \<noteq> []
           \<and> \<not> length (strip_non_digits (phone p)) < 10
           \<and> fetch rt (send_request token (strip_non_digits (phone p)) (billing_message rt p)) = Inr res
           \<and> \<not> res_ok res \<and> res_text res = Inr errorText \<longrightarrow>
           sendBillingWhatsApp rt p = Inr (SendFailure (''WhatsApp API error: '' @ string_of_int (res_status res) @ '' - '' @ errorText) (toISOString_now rt)))"
    by (simp add: unfolded new_Error_def)
  have not_ok_text_throws: "(\<forall>token res e. getValidAccessToken rt (organisationId p) = Inr (Some token) \<and> token \<noteq> []
           \<and> \<not> length (strip_non_digits (phone p)) < 10
           \<and> fetch rt (send_request token (strip_non_digits (phone p)) (billing_message rt p)) = Inr res
           \<and> \<not> res_ok res \<and> res_text res = Inl e \<longrightarrow>
           sendBillingWhatsApp rt p = Inr (SendFailure (catch_message e) (toISOString_now rt)))"
    by (simp add: unfolded)
  have not_ok_any: "(\<forall>token res. getValidAccessToken rt (organisationId p) = Inr (Some token) \<and> token \<noteq> []
           \<and> \<not> length (strip_non_digits (phone p)) < 10
           \<and> fetch rt (send_request token (strip_non_digits (phone p)) (billing_message rt p)) = Inr res
           \<and> \<not> res_ok res \<longrightarrow>
           (\<exists>msg. sendBillingWhatsApp rt p = Inr (SendFailure msg (toISOString_now rt))))"
    by (auto simp add: unfolded split: sum.splits)
  have json_throws: "(\<forall>token res e. getValidAccessToken rt (organisationId p) = Inr (Some token) \<and> token \<noteq> []
           \<and> \<not> length (strip_non_digits (phone p)) < 10
           \<and> fetch rt (send_request token (strip_non_digits (phone p)) (billing_message rt p)) = Inr res
           \<and> res_ok res \<and> res_json res = Inl e \<longrightarrow>
           sendBillingWhatsApp rt p = Inr (SendFailure (catch_message e) (toISOString_now rt)))"
    by (simp add: unfolded)
  have json_null: "(\<forall>token res. getValidAccessToken rt (organisationId p) = Inr (Some token) \<and> token \<noteq> []
           \<and> \<not> length (strip_non_digits (phone p)) < 10
           \<and> fetch rt (send_request token (strip_non_digits (phone p)) (billing_message rt p)) = Inr res
           \<and> res_ok res \<and> res_json res = Inr JsonNull \<longrightarrow>
           sendBillingWhatsApp rt p = Inr (SendFailure ''Cannot read properties of null (reading 'message_id')'' (toISOString_now rt)))"
    by (simp add: unfolded)
  have sent: "(\<forall>token res mid. getValidAccessToken rt (organisationId p) = Inr (Some token) \<and> token \<noteq> []
           \<and> \<not> length (strip_non_digits (phone p)) < 10
           \<and> fetch rt (send_request token (strip_non_digits (phone p)) (billing_message rt p)) = Inr res
           \<and> res_ok res \<and> res_json res = Inr (JsonValue mid) \<longrightarrow>
           sendBillingWhatsApp rt p =
             Inr (SendSuccess (JsonValue mid) (if truthy mid then mid else None)))"
    by (simp add: unfolded)
  have messages: "(\<forall>name message v. catch_message (JsError name message) = message
           \<and> catch_message (JsValue (Some message) v) = ''Unknown error occurred''
           \<and> catch_message (JsValue None v) = ''Unknown error occurred''
           \<and> catch_message JsNull = ''Unknown error occurred''
           \<and> catch_message JsUndefined = ''Unknown error occurred'')"
    by simp
  have strip: "(\<forall>c s. strip_non_digits [] = []
           \<and> strip_non_digits (c # s) =
               (if c \<in> set ''0123456789'' then c # strip_non_digits s else strip_non_digits s))"
    by (simp add: strip_non_digits_def)
  have request: "(\<forall>token digits message.
           req_body_phone (send_request token digits message) = digits
           \<and> req_body_message (send_request token digits message) = message
           \<and> req_authorization (send_request token digits message) = ''Bearer '' @ token)"
    by (simp add: send_request_def)
  have example: "strip_non_digits ''+91 98765-43210'' = ''919876543210''"
    "length (strip_non_digits ''+91 98765-43210'') = 12"
    by (simp_all add: strip_non_digits_def)
  have short_example: "phone p = ''12345'' \<longrightarrow>
         (\<exists>msg. sendBillingWhatsApp rt p = Inr (SendFailure msg (toISOString_now rt)))"
  proof
    assume "phone p = ''12345''"
    then have "length (strip_non_digits (phone p)) < 10" by (simp add: strip_non_digits_def)
    then show "\<exists>msg. sendBillingWhatsApp rt p = Inr (SendFailure msg (toISOString_now rt))"
      by (rule rejects)
  qed
  from returns token_throws token_missing short_any short fetch_throws not_ok not_ok_text_throws not_ok_any json_throws json_null sent messages strip request example short_example
  show ?thesis by (intro conjI)
qed

lemma string_of_int_401: "string_of_int 401 = ''401''"
  by (simp add: string_of_int_def string_of_nat.simps [of 401] string_of_nat.simps [of 40]
      string_of_nat.simps [of 4] digit_char_def)

theorem sendBillingWhatsApp_never_throws_witness:
  "sendBillingWhatsApp example_runtime example_params
     = Inr (SendSuccess (JsonValue (Some ''wamid-1'')) (Some ''wamid-1''))
   \<and> length (strip_non_digits (phone (example_params\<lparr>phone := ''12345''\<rparr>))) < 10
   \<and> sendBillingWhatsApp example_runtime (example_params\<lparr>phone := ''12345''\<rparr>)
     = Inr (SendFailure ''Invalid phone number format'' ''2026-01-01T00:00:00.000Z'')
   \<and> sendBillingWhatsApp (example_runtime\<lparr>getValidAccessToken := (\<lambda>org. Inr None)\<rparr>) example_params
     = Inr (SendFailure ''No valid access token found for organisation'' ''2026-01-01T00:00:00.000Z'')
   \<and> sendBillingWhatsApp
         (example_runtime\<lparr>getValidAccessToken := (\<lambda>org. Inl (JsError ''Error'' ''token store down''))\<rparr>)
         example_params
     = Inr (SendFailure ''token store down'' ''2026-01-01T00:00:00.000Z'')
   \<and> sendBillingWhatsApp (example_runtime\<lparr>fetch := (\<lambda>req. Inr not_ok_response)\<rparr>) example_params
     = Inr (SendFailure ''WhatsApp API error: 401 - unauthorized'' ''2026-01-01T00:00:00.000Z'')
   \<and> sendBillingWhatsApp (example_runtime\<lparr>fetch := (\<lambda>req. Inr unreadable_response)\<rparr>) example_params
     = Inr (SendFailure ''body stream already read'' ''2026-01-01T00:00:00.000Z'')
   \<and> sendBillingWhatsApp (example_runtime\<lparr>fetch := (\<lambda>req. Inr unparsable_response)\<rparr>) example_params
     = Inr (SendFailure ''Unexpected token'' ''2026-01-01T00:00:00.000Z'')
   \<and> sendBillingWhatsApp (example_runtime\<lparr>fetch := (\<lambda>req. Inr null_response)\<rparr>) example_params
     = Inr (SendFailure ''Cannot read properties of null (reading 'message_id')''
         ''2026-01-01T00:00:00.000Z'')
   \<and> sendBillingWhatsApp (example_runtime\<lparr>fetch := (\<lambda>req. Inl (JsValue None ''timeout''))\<rparr>) example_params
     = Inr (SendFailure ''Unknown error occurred'' ''2026-01-01T00:00:00.000Z'')"
proof -
  let ?short = "example_params\<lparr>phone := ''12345''\<rparr>"
  let ?no_token = "example_runtime\<lparr>getValidAccessToken := (\<lambda>org. Inr None)\<rparr>"
  let ?token_down =
    "example_runtime\<lparr>getValidAccessToken := (\<lambda>org. Inl (JsError ''Error'' ''token store down''))\<rparr>"
  let ?not_ok = "example_runtime\<lparr>fetch := (\<lambda>req. Inr not_ok_response)\<rparr>"
  let ?unreadable = "example_runtime\<lparr>fetch := (\<lambda>req. Inr unreadable_response)\<rparr>"
  let ?unparsable = "example_runtime\<lparr>fetch := (\<lambda>req. Inr unparsable_response)\<rparr>"
  let ?null = "example_runtime\<lparr>fetch := (\<lambda>req. Inr null_response)\<rparr>"
  let ?throwing = "example_runtime\<lparr>fetch := (\<lambda>req. Inl (JsValue None ''timeout''))\<rparr>"
  have digits: "strip_non_digits (phone example_params) = ''919876543210''"
    by (simp add: example_params_def strip_non_digits_def)
  have tok: "getValidAccessToken example_runtime (organisationId example_params) = Inr (Some ''token-1'')"
    by (simp add: example_runtime_def)
  have tok': "getValidAccessToken (example_runtime\<lparr>fetch := f\<rparr>) (organisationId example_params)
      = Inr (Some ''token-1'')" for f
    by (simp add: example_runtime_def)
  have now: "toISOString_now (example_runtime\<lparr>fetch := f\<rparr>) = ''2026-01-01T00:00:00.000Z''" for f
    by (simp add: example_runtime_def)
  have long: "\<not> length (strip_non_digits (phone example_params)) < 10"
    unfolding digits by simp
  have sent: "fetch example_runtime
      (send_request ''token-1'' (strip_non_digits (phone example_params))
        (billing_message example_runtime example_params)) = Inr ok_response"
    unfolding digits by (simp add: example_runtime_def send_request_def)
  have a: "sendBillingWhatsApp example_runtime example_params
     = Inr (SendSuccess (JsonValue (Some ''wamid-1'')) (Some ''wamid-1''))"
    using sendBillingWhatsApp_never_throws [of example_runtime example_params] tok long sent
    by (simp add: ok_response_def)
  have short: "length (strip_non_digits (phone ?short)) < 10"
    by (simp add: strip_non_digits_def)
  have b: "sendBillingWhatsApp example_runtime ?short
     = Inr (SendFailure ''Invalid phone number format'' ''2026-01-01T00:00:00.000Z'')"
    using sendBillingWhatsApp_never_throws [of example_runtime ?short] short
    by (simp add: example_runtime_def)
  have c: "sendBillingWhatsApp ?no_token example_params
     = Inr (SendFailure ''No valid access token found for organisation'' ''2026-01-01T00:00:00.000Z'')"
    using sendBillingWhatsApp_never_throws [of ?no_token example_params]
    by (simp add: example_runtime_def)
  have c': "sendBillingWhatsApp ?token_down example_params
     = Inr (SendFailure ''token store down'' ''2026-01-01T00:00:00.000Z'')"
    using sendBillingWhatsApp_never_throws [of ?token_down example_params]
    by (simp add: example_runtime_def)
  have d: "sendBillingWhatsApp ?not_ok example_params
     = Inr (SendFailure ''WhatsApp API error: 401 - unauthorized'' ''2026-01-01T00:00:00.000Z'')"
    using sendBillingWhatsApp_never_throws [of ?not_ok example_params] long tok' now
    by (simp add: not_ok_response_def string_of_int_401)
  have d': "sendBillingWhatsApp ?unreadable example_params
     = Inr (SendFailure ''body stream already read'' ''2026-01-01T00:00:00.000Z'')"
    using sendBillingWhatsApp_never_throws [of ?unreadable example_params] long tok' now
    by (simp add: unreadable_response_def)
  have e: "sendBillingWhatsApp ?unparsable example_params
     = Inr (SendFailure ''Unexpected token'' ''2026-01-01T00:00:00.000Z'')"
    using sendBillingWhatsApp_never_throws [of ?unparsable example_params] long tok' now
    by (simp add: unparsable_response_def)
  have f: "sendBillingWhatsApp ?null example_params
     = Inr (SendFailure ''Cannot read properties of null (reading 'message_id')''
         ''2026-01-01T00:00:00.000Z'')"
    using sendBillingWhatsApp_never_throws [of ?null example_params] long tok' now
    by (simp add: null_response_def)
  have g: "sendBillingWhatsApp ?throwing example_params
     = Inr (SendFailure ''Unknown error occurred'' ''2026-01-01T00:00:00.000Z'')"
    using sendBillingWhatsApp_never_throws [of ?throwing example_params] long tok' now
    by simp
  from a short b c c' d d' e f g show ?thesis by (intro conjI)
qed

section \<open>The retry loop\<close>

lemma retry_loop_calls_bound:
  "fst (snd (retry_loop send m a le c ds)) \<le> c + nat (m + 1 - a)"
proof (induction send m a le c ds rule: retry_loop.induct)
  case (1 send maxRetries attempt lastError calls delays)
  show ?case
  proof (cases "attempt \<le> maxRetries")
    case False
    then show ?thesis by (simp add: retry_loop.simps [of send maxRetries attempt])
  next
    case True
    show ?thesis
    proof (cases "send attempt")
      case (Inl e)
      with True "1.IH"(1) [OF True Inl] show ?thesis
        by (simp add: retry_loop.simps [of send maxRetries attempt])
    next
      case (Inr result)
      show ?thesis
      proof (cases result)
        case (SendSuccess d mid)
        with True Inr show ?thesis
          by (simp add: retry_loop.simps [of send maxRetries attempt])
      next
        case (SendFailure err ts)
        with True Inr "1.IH"(2) [OF True Inr SendFailure] show ?thesis
          by (simp add: retry_loop.simps [of send maxRetries attempt])
      qed
    qed
  qed
qed

lemma retry_loop_first_success:
  "a \<le> k \<Longrightarrow> k \<le> m \<Longrightarrow> send k = Inr (SendSuccess d mid) \<Longrightarrow>
   (\<forall>j. a \<le> j \<and> j < k \<longrightarrow> \<not> succeeded (send j)) \<Longrightarrow>
   fst (retry_loop send m a le c ds) = Inr (SendSuccess d mid)
   \<and> fst (snd (retry_loop send m a le c ds)) = c + nat (k - a + 1)"
proof (induction send m a le c ds rule: retry_loop.induct)
  case (1 send maxRetries attempt lastError calls delays)
  from "1.prems" have le: "attempt \<le> maxRetries" by simp
  show ?case
  proof (cases "attempt = k")
    case True
    with "1.prems" have s: "send attempt = Inr (SendSuccess d mid)"
      and ka: "nat (k - attempt + 1) = 1" by simp_all
    from le s show ?thesis
      unfolding ka by (simp add: retry_loop.simps [of send maxRetries attempt])
  next
    case False
    with "1.prems" have lt: "attempt < k" and nk: "attempt + 1 \<le> k" by simp_all
    from "1.prems" lt have ns: "\<not> succeeded (send attempt)" by simp
    from "1.prems" have rest: "\<forall>j. attempt + 1 \<le> j \<and> j < k \<longrightarrow> \<not> succeeded (send j)" by simp
    show ?thesis
    proof (cases "send attempt")
      case (Inl e)
      from "1.IH"(1) [OF le Inl nk "1.prems"(2) "1.prems"(3) rest] le Inl nk show ?thesis
        by (simp add: retry_loop.simps [of send maxRetries attempt] nat_add_distrib) 
    next
      case (Inr result)
      with ns obtain err ts where f: "result = SendFailure err ts"
        by (cases result) (simp_all add: succeeded_def)
      from "1.IH"(2) [OF le Inr f nk "1.prems"(2) "1.prems"(3) rest] le Inr f nk show ?thesis
        by (simp add: retry_loop.simps [of send maxRetries attempt] nat_add_distrib)
    qed
  qed
qed

lemma retry_loop_exhausted:
  "(\<forall>j. a \<le> j \<and> j \<le> m \<longrightarrow> \<not> succeeded (send j)) \<Longrightarrow>
   fst (retry_loop send m a le c ds) =
     Inl (terminal_error m (if a \<le> m then outcome_error (send m) else le))
   \<and> fst (snd (retry_loop send m a le c ds)) = c + nat (m + 1 - a)"
proof (induction send m a le c ds rule: retry_loop.induct)
  case (1 send maxRetries attempt lastError calls delays)
  show ?case
  proof (cases "attempt \<le> maxRetries")
    case False
    then show ?thesis by (simp add: retry_loop.simps [of send maxRetries attempt])
  next
    case True
    from "1.prems" True have ns: "\<not> succeeded (send attempt)" by simp
    from "1.prems" have rest: "\<forall>j. attempt + 1 \<le> j \<and> j \<le> maxRetries \<longrightarrow> \<not> succeeded (send j)" by simp
    have n: "Suc calls + nat (maxRetries + 1 - (attempt + 1)) = calls + nat (maxRetries + 1 - attempt)"
      using True by simp
    show ?thesis
    proof (cases "send attempt")
      case (Inl e)
      have step: "retry_loop send maxRetries attempt lastError calls delays =
          retry_loop send maxRetries (attempt + 1) (Caught e) (Suc calls) delays"
        using True Inl by (simp add: retry_loop.simps [of send maxRetries attempt])
      have oe: "(if attempt + 1 \<le> maxRetries then outcome_error (send maxRetries) else Caught e)
          = outcome_error (send maxRetries)"
      proof (cases "attempt + 1 \<le> maxRetries")
        case False
        with True have "attempt = maxRetries" by simp
        with Inl False show ?thesis by simp
      qed simp
      from "1.IH"(1) [OF True Inl rest] True show ?thesis
        unfolding step oe n by simp
    next
      case (Inr result)
      with ns obtain err ts where f: "result = SendFailure err ts"
        by (cases result) (simp_all add: succeeded_def)
      let ?ds = "if attempt < maxRetries then delays @ [2 ^ nat attempt * 1000] else delays"
      have step: "retry_loop send maxRetries attempt lastError calls delays =
          retry_loop send maxRetries (attempt + 1) (ResultError err) (Suc calls) ?ds"
        using True Inr f by (simp add: retry_loop.simps [of send maxRetries attempt])
      have oe: "(if attempt + 1 \<le> maxRetries then outcome_error (send maxRetries) else ResultError err)
          = outcome_error (send maxRetries)"
      proof (cases "attempt + 1 \<le> maxRetries")
        case False
        with True have "attempt = maxRetries" by simp
        with Inr f False show ?thesis by simp
      qed simp
      from "1.IH"(2) [OF True Inr f rest] True show ?thesis
        unfolding step oe n by simp
    qed
  qed
qed

lemma retry_with_calls_bound:
  "int (fst (snd (retry_with send maxRetries)))
     \<le> max 0 (attempt_limit maxRetries)"
  using retry_loop_calls_bound [of send "attempt_limit maxRetries" 1 Unassigned 0 "[]"]
  by (simp add: retry_with_def)

lemma not_succeeded_iff:
  "\<not> succeeded outcome \<longleftrightarrow> (\<forall>d m. outcome \<noteq> Inr (SendSuccess d m))"
proof (cases outcome)
  case (Inl e)
  then show ?thesis by (simp add: succeeded_def)
next
  case (Inr r)
  then show ?thesis by (cases r) (simp_all add: succeeded_def)
qed

lemma retry_with_first_success:
  assumes "1 \<le> k" and "k \<le> attempt_limit maxRetries" and "send k = Inr (SendSuccess d mid)"
    and "\<forall>j. 1 \<le> j \<and> j < k \<longrightarrow> (\<forall>d' m'. send j \<noteq> Inr (SendSuccess d' m'))"
  shows "fst (retry_with send maxRetries) = Inr (SendSuccess d mid)
     \<and> int (fst (snd (retry_with send maxRetries))) = k"
proof -
  from assms(4) have "\<forall>j. 1 \<le> j \<and> j < k \<longrightarrow> \<not> succeeded (send j)"
    by (simp add: not_succeeded_iff)
  from retry_loop_first_success [OF assms(1-3) this, of Unassigned 0 "[]"] assms(1)
  show ?thesis by (simp add: retry_with_def)
qed

lemma retry_with_exhausted:
  assumes "\<forall>j. 1 \<le> j \<and> j \<le> attempt_limit maxRetries \<longrightarrow> (\<forall>d' m'. send j \<noteq> Inr (SendSuccess d' m'))"
  shows "fst (retry_with send maxRetries) =
      Inl (JsError ''Error''
        (''WhatsApp failed after '' @ string_of_int (attempt_limit maxRetries)
         @ '' attempts. Last error: ''
         @ render_last_error
             (if 1 \<le> attempt_limit maxRetries then outcome_error (send (attempt_limit maxRetries))
              else Unassigned)))
     \<and> int (fst (snd (retry_with send maxRetries))) = max 0 (attempt_limit maxRetries)"
proof -
  from assms have "\<forall>j. 1 \<le> j \<and> j \<le> attempt_limit maxRetries \<longrightarrow> \<not> succeeded (send j)"
    by (simp add: not_succeeded_iff)
  from retry_loop_exhausted [OF this, of Unassigned 0 "[]"]
  show ?thesis by (simp add: retry_with_def terminal_error_def new_Error_def)
qed

lemma retry_with_no_attempt:
  assumes "attempt_limit maxRetries \<le> 0"
  shows "retry_with send maxRetries =
    (Inl (JsError ''Error''
       (''WhatsApp failed after '' @ string_of_int (attempt_limit maxRetries)
        @ '' attempts. Last error: undefined'')), 0, [])"
  using assms
  by (simp add: retry_with_def retry_loop.simps [of send "attempt_limit maxRetries" 1]
      terminal_error_def new_Error_def)

lemma string_of_int_digit:
  "string_of_int 0 = ''0''" "string_of_int 2 = ''2''" "string_of_int 3 = ''3''"
  by (simp_all add: string_of_int_def string_of_nat.simps digit_char_def)

lemma example_deliveries:
  "sendBillingWhatsApp example_runtime example_params
     = Inr (SendSuccess (JsonValue (Some ''wamid-1'')) (Some ''wamid-1''))"
  "sendBillingWhatsApp (example_runtime\<lparr>getValidAccessToken := (\<lambda>org. Inr None)\<rparr>) example_params
     = Inr (SendFailure ''No valid access token found for organisation'' ''2026-01-01T00:00:00.000Z'')"
  by (simp_all add: sendBillingWhatsApp_def try_catch_def sendBillingWhatsApp_try_def
      example_runtime_def example_params_def strip_non_digits_def send_request_def
      ok_response_def new_Error_def Let_def)

text \<open>
  C5. The retry wrapper \<open>sendBillingWhatsAppWithRetry\<close> calls \<open>sendBillingWhatsApp\<close>
  with the same payload at most \<open>maxRetries\<close> times, 3 when the argument is absent and
  not at all when it is not positive. When attempt \<open>k\<close> is the first to succeed, the
  wrapper returns that success result after exactly \<open>k\<close> calls. When no attempt
  succeeds, it makes all \<open>maxRetries\<close> calls and throws an error whose message holds
  the attempt count and the last error seen. The same holds of the loop with any
  delivery call in place of \<open>sendBillingWhatsApp\<close>, one that throws included; a
  delivery call that fails twice and then succeeds is called exactly 3 times, with
  waits of 2000 and 4000 ms, and its success result is returned.
\<close>

theorem retry_wrapper_attempts:
  assumes "maxRetries = None \<and> n = 3 \<or> maxRetries = Some n"
  shows "int (fst (snd (sendBillingWhatsAppWithRetry rts p maxRetries))) \<le> max 0 n
    \<and> (\<forall>k d mid.
        1 \<le> k \<and> k \<le> n \<and> sendBillingWhatsApp (rts k) p = Inr (SendSuccess d mid)
        \<and> (\<forall>j. 1 \<le> j \<and> j < k \<longrightarrow> (\<exists>err ts. sendBillingWhatsApp (rts j) p = Inr (SendFailure err ts))) \<longrightarrow>
        fst (sendBillingWhatsAppWithRetry rts p maxRetries) = Inr (SendSuccess d mid)
        \<and> int (fst (snd (sendBillingWhatsAppWithRetry rts p maxRetries))) = k)
    \<and> (\<forall>err ts.
        1 \<le> n
        \<and> (\<forall>j. 1 \<le> j \<and> j \<le> n \<longrightarrow> (\<exists>e t. sendBillingWhatsApp (rts j) p = Inr (SendFailure e t)))
        \<and> sendBillingWhatsApp (rts n) p = Inr (SendFailure err ts) \<longrightarrow>
        fst (sendBillingWhatsAppWithRetry rts p maxRetries) = Inl (JsError ''Error'' (''WhatsApp failed after '' @ string_of_int n @ '' attempts. Last error: '' @ err))
        \<and> int (fst (snd (sendBillingWhatsAppWithRetry rts p maxRetries))) = n)
    \<and> (n \<le> 0 \<longrightarrow>
        sendBillingWhatsAppWithRetry rts p maxRetries =
          (Inl (JsError ''Error''
             (''WhatsApp failed after '' @ string_of_int n @ '' attempts. Last error: undefined'')),
           0, []))
    \<and> int (fst (snd (retry_with send maxRetries))) \<le> max 0 n
    \<and> (\<forall>k d mid.
        1 \<le> k \<and> k \<le> n \<and> send k = Inr (SendSuccess d mid)
        \<and> (\<forall>j. 1 \<le> j \<and> j < k \<longrightarrow> (\<forall>d' m'. send j \<noteq> Inr (SendSuccess d' m'))) \<longrightarrow>
        fst (retry_with send maxRetries) = Inr (SendSuccess d mid)
        \<and> int (fst (snd (retry_with send maxRetries))) = k)
    \<and> ((\<forall>j. 1 \<le> j \<and> j \<le> n \<longrightarrow> (\<forall>d' m'. send j \<noteq> Inr (SendSuccess d' m'))) \<longrightarrow>
        fst (retry_with send maxRetries) =
          Inl (JsError ''Error''
            (''WhatsApp failed after '' @ string_of_int n @ '' attempts. Last error: ''
             @ render_last_error (if 1 \<le> n then outcome_error (send n) else Unassigned)))
        \<and> int (fst (snd (retry_with send maxRetries))) = max 0 n)
    \<and> (\<forall>err ts d mid.
        retry_with (\<lambda>attempt. if attempt \<le> 2 then Inr (SendFailure err ts)
                               else Inr (SendSuccess d mid)) None
          = (Inr (SendSuccess d mid), 3, [2000, 4000]))
    \<and> sendBillingWhatsAppWithRetry rts p maxRetries = retry_with (\<lambda>attempt. sendBillingWhatsApp (rts attempt) p) maxRetries"
proof -
  from assms have n: "attempt_limit maxRetries = n" by (auto simp: attempt_limit_def)
  let ?send = "\<lambda>attempt. sendBillingWhatsApp (rts attempt) p"
  have w: "sendBillingWhatsAppWithRetry rts p maxRetries = retry_with ?send maxRetries"
    by (simp add: sendBillingWhatsAppWithRetry_def)
  have a: "int (fst (snd (sendBillingWhatsAppWithRetry rts p maxRetries))) \<le> max 0 n"
    unfolding w using retry_with_calls_bound [of ?send maxRetries] by (simp add: n)
  have b: "(\<forall>k d mid.
          1 \<le> k \<and> k \<le> n \<and> sendBillingWhatsApp (rts k) p = Inr (SendSuccess d mid)
          \<and> (\<forall>j. 1 \<le> j \<and> j < k \<longrightarrow> (\<exists>err ts. sendBillingWhatsApp (rts j) p = Inr (SendFailure err ts))) \<longrightarrow>
          fst (sendBillingWhatsAppWithRetry rts p maxRetries) = Inr (SendSuccess d mid)
          \<and> int (fst (snd (sendBillingWhatsAppWithRetry rts p maxRetries))) = k)"
  proof (intro allI impI)
    fix k d mid
    assume h: "1 \<le> k \<and> k \<le> n \<and> sendBillingWhatsApp (rts k) p = Inr (SendSuccess d mid)
        \<and> (\<forall>j. 1 \<le> j \<and> j < k \<longrightarrow> (\<exists>err ts. sendBillingWhatsApp (rts j) p = Inr (SendFailure err ts)))"
    then have "\<forall>j. 1 \<le> j \<and> j < k \<longrightarrow> (\<forall>d' m'. ?send j \<noteq> Inr (SendSuccess d' m'))"
      by auto
    with h retry_with_first_success [of k maxRetries ?send d mid]
    show "fst (sendBillingWhatsAppWithRetry rts p maxRetries) = Inr (SendSuccess d mid)
        \<and> int (fst (snd (sendBillingWhatsAppWithRetry rts p maxRetries))) = k"
      unfolding w by (simp add: n)
  qed
  have c: "(\<forall>err ts.
          1 \<le> n
          \<and> (\<forall>j. 1 \<le> j \<and> j \<le> n \<longrightarrow> (\<exists>e t. sendBillingWhatsApp (rts j) p = Inr (SendFailure e t)))
          \<and> sendBillingWhatsApp (rts n) p = Inr (SendFailure err ts) \<longrightarrow>
          fst (sendBillingWhatsAppWithRetry rts p maxRetries) = Inl (JsError ''Error'' (''WhatsApp failed after '' @ string_of_int n @ '' attempts. Last error: '' @ err))
          \<and> int (fst (snd (sendBillingWhatsAppWithRetry rts p maxRetries))) = n)"
  proof (intro allI impI)
    fix err ts
    assume h: "1 \<le> n
        \<and> (\<forall>j. 1 \<le> j \<and> j \<le> n \<longrightarrow> (\<exists>e t. sendBillingWhatsApp (rts j) p = Inr (SendFailure e t)))
        \<and> sendBillingWhatsApp (rts n) p = Inr (SendFailure err ts)"
    then have "\<forall>j. 1 \<le> j \<and> j \<le> attempt_limit maxRetries \<longrightarrow>
        (\<forall>d' m'. ?send j \<noteq> Inr (SendSuccess d' m'))"
      by (auto simp: n)
    from retry_with_exhausted [OF this] h
    show "fst (sendBillingWhatsAppWithRetry rts p maxRetries) =
          Inl (JsError ''Error''
            (''WhatsApp failed after '' @ string_of_int n @ '' attempts. Last error: '' @ err))
        \<and> int (fst (snd (sendBillingWhatsAppWithRetry rts p maxRetries))) = n"
      unfolding w by (simp add: n)
  qed
  have d: "(n \<le> 0 \<longrightarrow>
          sendBillingWhatsAppWithRetry rts p maxRetries =
            (Inl (JsError ''Error''
               (''WhatsApp failed after '' @ string_of_int n @ '' attempts. Last error: undefined'')),
             0, []))"
    unfolding w using retry_with_no_attempt [of maxRetries ?send] by (simp add: n)
  have e: "int (fst (snd (retry_with send maxRetries))) \<le> max 0 n"
    using retry_with_calls_bound [of send maxRetries] by (simp add: n)
  have f: "(\<forall>k d mid.
          1 \<le> k \<and> k \<le> n \<and> send k = Inr (SendSuccess d mid)
          \<and> (\<forall>j. 1 \<le> j \<and> j < k \<longrightarrow> (\<forall>d' m'. send j \<noteq> Inr (SendSuccess d' m'))) \<longrightarrow>
          fst (retry_with send maxRetries) = Inr (SendSuccess d mid)
          \<and> int (fst (snd (retry_with send maxRetries))) = k)"
    using retry_with_first_success [of _ maxRetries send] unfolding n by blast
  have g: "((\<forall>j. 1 \<le> j \<and> j \<le> n \<longrightarrow> (\<forall>d' m'. send j \<noteq> Inr (SendSuccess d' m'))) \<longrightarrow>
          fst (retry_with send maxRetries) =
            Inl (JsError ''Error''
              (''WhatsApp failed after '' @ string_of_int n @ '' attempts. Last error: ''
               @ render_last_error (if 1 \<le> n then outcome_error (send n) else Unassigned)))
          \<and> int (fst (snd (retry_with send maxRetries))) = max 0 n)"
    using retry_with_exhausted [of maxRetries send] unfolding n by blast
  have h: "(\<forall>err ts d mid.
          retry_with (\<lambda>attempt. if attempt \<le> 2 then Inr (SendFailure err ts)
                                 else Inr (SendSuccess d mid)) None
            = (Inr (SendSuccess d mid), 3, [2000, 4000]))"
    by (simp add: retry_with_def attempt_limit_def retry_loop.simps [of _ 3 1]
        retry_loop.simps [of _ 3 2] retry_loop.simps [of _ 3 3] numeral_3_eq_3)
  from a b c d e f g h w show ?thesis by (intro conjI)
qed

theorem retry_wrapper_attempts_witness:
  "sendBillingWhatsApp (flaky_runtimes 3) example_params
     = Inr (SendSuccess (JsonValue (Some ''wamid-1'')) (Some ''wamid-1''))
   \<and> fst (sendBillingWhatsAppWithRetry flaky_runtimes example_params None)
     = Inr (SendSuccess (JsonValue (Some ''wamid-1'')) (Some ''wamid-1''))
   \<and> fst (snd (sendBillingWhatsAppWithRetry flaky_runtimes example_params None)) = 3
   \<and> fst (sendBillingWhatsAppWithRetry down_runtimes example_params None)
     = Inl (JsError ''Error''
         ''WhatsApp failed after 3 attempts. Last error: No valid access token found for organisation'')
   \<and> fst (snd (sendBillingWhatsAppWithRetry down_runtimes example_params None)) = 3
   \<and> fst (sendBillingWhatsAppWithRetry down_runtimes example_params (Some 2))
     = Inl (JsError ''Error''
         ''WhatsApp failed after 2 attempts. Last error: No valid access token found for organisation'')
   \<and> fst (snd (sendBillingWhatsAppWithRetry down_runtimes example_params (Some 2))) = 2
   \<and> sendBillingWhatsAppWithRetry flaky_runtimes example_params (Some 0)
     = (Inl (JsError ''Error'' ''WhatsApp failed after 0 attempts. Last error: undefined''), 0, [])
   \<and> flaky_stub 3 = Inr (SendSuccess (JsonValue (Some ''wamid-1'')) (Some ''wamid-1''))
   \<and> fst (retry_with flaky_stub None) = Inr (SendSuccess (JsonValue (Some ''wamid-1'')) (Some ''wamid-1''))
   \<and> fst (snd (retry_with flaky_stub None)) = 3
   \<and> fst (retry_with failing_stub (Some 2))
       = Inl (JsError ''Error'' ''WhatsApp failed after 2 attempts. Last error: provider down'')
   \<and> fst (snd (retry_with failing_stub (Some 2))) = 2"
proof -
  let ?ok = "Inr (SendSuccess (JsonValue (Some ''wamid-1'')) (Some ''wamid-1'')) :: thrown + send_result"
  let ?no_token = "''No valid access token found for organisation''"
  have flaky: "sendBillingWhatsApp (flaky_runtimes 3) example_params = ?ok"
    "\<forall>j. 1 \<le> j \<and> j < 3 \<longrightarrow>
      (\<exists>err ts. sendBillingWhatsApp (flaky_runtimes j) example_params = Inr (SendFailure err ts))"
    by (simp_all add: flaky_runtimes_def example_deliveries)
  have down: "sendBillingWhatsApp (down_runtimes k) example_params
      = Inr (SendFailure ?no_token ''2026-01-01T00:00:00.000Z'')" for k
    by (simp add: down_runtimes_def example_deliveries)
  have absent: "(None :: int option) = None \<and> (3 :: int) = 3 \<or> None = Some 3"
    and given: "Some m = None \<and> m = 3 \<or> Some m = Some m" for m :: int
    by simp_all
  note none = retry_wrapper_attempts [OF absent]
  note two = retry_wrapper_attempts [OF given [of 2]]
  note zero = retry_wrapper_attempts [OF given [of 0]]
  have a: "fst (sendBillingWhatsAppWithRetry flaky_runtimes example_params None) = ?ok
      \<and> int (fst (snd (sendBillingWhatsAppWithRetry flaky_runtimes example_params None))) = 3"
    using none [where rts = flaky_runtimes and p = example_params, THEN conjunct2, THEN conjunct1,
        rule_format, of 3] flaky
    by simp
  have b: "fst (sendBillingWhatsAppWithRetry down_runtimes example_params None)
        = Inl (JsError ''Error'' (''WhatsApp failed after 3 attempts. Last error: '' @ ?no_token))
      \<and> int (fst (snd (sendBillingWhatsAppWithRetry down_runtimes example_params None))) = 3"
    using none [where rts = down_runtimes and p = example_params,
        THEN conjunct2, THEN conjunct2, THEN conjunct1, rule_format, of ?no_token] down
    by (simp add: string_of_int_digit)
  have c: "fst (sendBillingWhatsAppWithRetry down_runtimes example_params (Some 2))
        = Inl (JsError ''Error'' (''WhatsApp failed after 2 attempts. Last error: '' @ ?no_token))
      \<and> int (fst (snd (sendBillingWhatsAppWithRetry down_runtimes example_params (Some 2)))) = 2"
    using two [where rts = down_runtimes and p = example_params,
        THEN conjunct2, THEN conjunct2, THEN conjunct1, rule_format, of ?no_token] down
    by (simp add: string_of_int_digit)
  have d: "sendBillingWhatsAppWithRetry flaky_runtimes example_params (Some 0)
     = (Inl (JsError ''Error'' ''WhatsApp failed after 0 attempts. Last error: undefined''), 0, [])"
    using zero [where rts = flaky_runtimes and p = example_params,
        THEN conjunct2, THEN conjunct2, THEN conjunct2, THEN conjunct1]
    by (simp add: string_of_int_digit)
  have s: "flaky_stub 3 = ?ok" by (simp add: flaky_stub_def)
  have e: "fst (retry_with flaky_stub None) = ?ok
      \<and> int (fst (snd (retry_with flaky_stub None))) = 3"
    using none [where send = flaky_stub, THEN conjunct2, THEN conjunct2, THEN conjunct2,
        THEN conjunct2, THEN conjunct2, THEN conjunct1, rule_format, of 3] s
    by (simp add: flaky_stub_def)
  have f: "fst (retry_with failing_stub (Some 2))
        = Inl (JsError ''Error'' ''WhatsApp failed after 2 attempts. Last error: provider down'')
      \<and> int (fst (snd (retry_with failing_stub (Some 2)))) = 2"
    using two [where send = failing_stub, THEN conjunct2, THEN conjunct2, THEN conjunct2,
        THEN conjunct2, THEN conjunct2, THEN conjunct2, THEN conjunct1]
    by (simp add: failing_stub_def string_of_int_digit)
  from flaky(1) a b c d s e f show ?thesis by simp
qed

section \<open>The message templates\<close>

text \<open>
  C7 (as stated, refuted). The \<open>detailed\<close> template embeds
  \<open>new Date().toLocaleDateString()\<close>: two evaluations on the same input in runtimes
  that differ only in the current date return different strings.
\<close>

theorem formatBillingMessage_detailed_reads_clock:
  "formatBillingMessage (example_runtime\<lparr>toLocaleDateString_now := ''1/1/2026''\<rparr>) example_format_params
   \<noteq> formatBillingMessage (example_runtime\<lparr>toLocaleDateString_now := ''1/2/2026''\<rparr>) example_format_params"
  by (simp add: formatBillingMessage_def example_runtime_def example_format_params_def
      shipping_line_def)

lemma shipping_line_clock [simp]:
  "shipping_line (rt\<lparr>toISOString_now := t\<rparr>) sm = shipping_line rt sm"
  "shipping_line (rt\<lparr>toLocaleDateString_now := d\<rparr>) sm = shipping_line rt sm"
  by (cases sm; simp add: shipping_line_def)+

text \<open>
  C7 (amended). \<open>formatBillingMessage\<close> has no failure mode of its own. For a template
  tag other than \<open>detailed\<close> (the default and compact variants) the result does not
  depend on the clock: any two evaluations on the same input return the same string.
  For \<open>detailed\<close> the string embeds the current local date, so two evaluations return
  the same string exactly when the date renders the same at both.
\<close>

theorem formatBillingMessage_clock:
  "(template p \<noteq> Some ''detailed'' \<longrightarrow>
      formatBillingMessage (rt\<lparr>toISOString_now := t, toLocaleDateString_now := d\<rparr>) p
        = formatBillingMessage rt p)
   \<and> (template p = Some ''detailed'' \<longrightarrow>
      (formatBillingMessage (rt\<lparr>toLocaleDateString_now := da\<rparr>) p
         = formatBillingMessage (rt\<lparr>toLocaleDateString_now := db\<rparr>) p) = (da = db))"
proof (intro conjI impI)
  assume "template p \<noteq> Some ''detailed''"
  then show "formatBillingMessage (rt\<lparr>toISOString_now := t, toLocaleDateString_now := d\<rparr>) p
        = formatBillingMessage rt p"
    by (cases "template p") (simp_all add: formatBillingMessage_def Let_def split: prod.splits)
next
  assume "template p = Some ''detailed''"
  then show "(formatBillingMessage (rt\<lparr>toLocaleDateString_now := da\<rparr>) p
         = formatBillingMessage (rt\<lparr>toLocaleDateString_now := db\<rparr>) p) = (da = db)"
    by (simp add: formatBillingMessage_def Let_def split: prod.splits)
qed

theorem formatBillingMessage_clock_witness:
  "template (example_format_params\<lparr>template := Some ''compact''\<rparr>) \<noteq> Some ''detailed''
   \<and> formatBillingMessage
         (example_runtime\<lparr>toISOString_now := ''2027-06-30T10:00:00.000Z'',
            toLocaleDateString_now := ''6/30/2027''\<rparr>)
         (example_format_params\<lparr>template := Some ''compact''\<rparr>)
       = formatBillingMessage example_runtime (example_format_params\<lparr>template := Some ''compact''\<rparr>)
   \<and> template example_format_params = Some ''detailed''
   \<and> formatBillingMessage (example_runtime\<lparr>toLocaleDateString_now := ''6/30/2027''\<rparr>)
         example_format_params
       \<noteq> formatBillingMessage (example_runtime\<lparr>toLocaleDateString_now := ''7/1/2027''\<rparr>)
         example_format_params"
proof -
  let ?compact = "example_format_params\<lparr>template := Some ''compact''\<rparr>"
  have c: "template ?compact \<noteq> Some ''detailed''" by simp
  have d: "template example_format_params = Some ''detailed''"
    by (simp add: example_format_params_def)
  from formatBillingMessage_clock
    [where p = ?compact and rt = example_runtime
      and t = "''2027-06-30T10:00:00.000Z''" and d = "''6/30/2027''"] c
  have a: "formatBillingMessage
         (example_runtime\<lparr>toISOString_now := ''2027-06-30T10:00:00.000Z'',
            toLocaleDateString_now := ''6/30/2027''\<rparr>) ?compact
       = formatBillingMessage example_runtime ?compact"
    by blast
  from formatBillingMessage_clock
    [where p = example_format_params and rt = example_runtime
      and da = "''6/30/2027''" and db = "''7/1/2027''"] d
  have b: "formatBillingMessage (example_runtime\<lparr>toLocaleDateString_now := ''6/30/2027''\<rparr>)
         example_format_params
       \<noteq> formatBillingMessage (example_runtime\<lparr>toLocaleDateString_now := ''7/1/2027''\<rparr>)
         example_format_params"
    by simp
  from a b c d show ?thesis by (intro conjI)
qed

text \<open>
  C9. A template tag other than \<open>compact\<close> and \<open>detailed\<close>, an unrecognized value or
  the absent tag, gives exactly the message of the default variant.
\<close>

theorem formatBillingMessage_default_fallback:
  assumes "template p \<noteq> Some ''compact''" and "template p \<noteq> Some ''detailed''"
  shows "formatBillingMessage rt p = formatBillingMessage rt (p\<lparr>template := Some ''default''\<rparr>)
    \<and> formatBillingMessage rt p =
        (case splitAddressIntoThreeParts rt (fm_address p) of
           (line1, line2, line3) \<Rightarrow>
             default_message (fm_companyName p) (fm_billNo p) (fm_products p)
               (numberToString rt (fm_amount p)) (shipping_line rt (fm_shippingMethod p))
               line1 line2 line3)"
  using assms
  by (cases "template p") (simp_all add: formatBillingMessage_def Let_def split: prod.splits)

theorem formatBillingMessage_default_fallback_witness:
  "template (example_format_params\<lparr>template := Some ''fancy''\<rparr>) \<noteq> Some ''compact''
   \<and> template (example_format_params\<lparr>template := Some ''fancy''\<rparr>) \<noteq> Some ''detailed''
   \<and> formatBillingMessage example_runtime (example_format_params\<lparr>template := Some ''fancy''\<rparr>)
       = formatBillingMessage example_runtime (example_format_params\<lparr>template := Some ''default''\<rparr>)
   \<and> template (example_format_params\<lparr>template := None\<rparr>) \<noteq> Some ''compact''
   \<and> template (example_format_params\<lparr>template := None\<rparr>) \<noteq> Some ''detailed''
   \<and> formatBillingMessage example_runtime (example_format_params\<lparr>template := None\<rparr>)
       = formatBillingMessage example_runtime (example_format_params\<lparr>template := Some ''default''\<rparr>)"
proof -
  let ?fancy = "example_format_params\<lparr>template := Some ''fancy''\<rparr>"
  let ?absent = "example_format_params\<lparr>template := None\<rparr>"
  have f: "template ?fancy \<noteq> Some ''compact''" "template ?fancy \<noteq> Some ''detailed''"
    and a: "template ?absent \<noteq> Some ''compact''" "template ?absent \<noteq> Some ''detailed''"
    by simp_all
  from formatBillingMessage_default_fallback [OF f, of example_runtime]
    formatBillingMessage_default_fallback [OF a, of example_runtime] f a
  show ?thesis by simp
qed

section \<open>The tracking-update workflow\<close>

lemma POST_reaches_load:
  assumes "getServerSession env = Inr (Some sess)" and "request_json env = Inr body"
    and "billId body = Some bid" and "bid \<noteq> []"
    and "body_trackingNumber body = Some tn" and "tn \<noteq> []"
  shows "POST_try env db = load_and_update env sess bid tn (body_weight body) db"
  using assms by (simp add: POST_try_def)

lemma load_and_update_offline:
  assumes "findFirst_rejects env = None"
    and "findFirst db (parseInt env bid) (parseInt env (user_id sess)) = Some existingBill"
    and "billingMode existingBill = ''offline''"
  shows "load_and_update env sess bid tn w db =
    (Inr (Response 400 (ErrorBody ''Tracking cannot be added to offline bills.'')), db, [])"
  using assms by (simp add: load_and_update_def)

lemma findFirst_in_db:
  "findFirst db k1 k2 = Some b \<Longrightarrow> b \<in> set db"
  by (auto simp: findFirst_def find_Some_iff)

lemma mutate_and_notify_effects:
  "Update i t w' s \<in> set (snd (snd (mutate_and_notify env sess existingBill tn w db)))
    \<Longrightarrow> i = rec_id existingBill"
  by (auto simp: mutate_and_notify_def Let_def split: option.splits sum.splits)

lemma load_and_update_effects:
  assumes "Update i t w' s \<in> set (snd (snd (load_and_update env sess bid tn w db)))"
  shows "\<exists>b. b \<in> set db \<and> rec_id b = i \<and> billingMode b \<noteq> ''offline''"
proof -
  from assms obtain existingBill where
    f: "findFirst db (parseInt env bid) (parseInt env (user_id sess)) = Some existingBill"
    and m: "billingMode existingBill \<noteq> ''offline''"
    and u: "Update i t w' s \<in> set (snd (snd (mutate_and_notify env sess existingBill tn w db)))"
    by (auto simp: load_and_update_def split: option.splits if_splits)
  from u have "i = rec_id existingBill" by (rule mutate_and_notify_effects)
  with f m show ?thesis by (auto dest: findFirst_in_db)
qed

lemma POST_try_effects:
  assumes "Update i t w' s \<in> set (snd (snd (POST_try env db)))"
  shows "\<exists>b. b \<in> set db \<and> rec_id b = i \<and> billingMode b \<noteq> ''offline''"
proof -
  from assms obtain sess bid tn w where
    "Update i t w' s \<in> set (snd (snd (load_and_update env sess bid tn w db)))"
    by (auto simp: POST_try_def Let_def split: sum.splits option.splits if_splits)
  then show ?thesis by (rule load_and_update_effects)
qed

lemma POST_effects_eq: "snd (snd (POST env db)) = snd (snd (POST_try env db))"
  by (simp add: POST_def split: prod.splits sum.splits)

lemma POST_of_returned:
  "POST_try env db = (Inr r, db', fx) \<Longrightarrow> POST env db = (Inr r, db', fx)"
  by (simp add: POST_def)

lemma POST_of_thrown:
  "POST_try env db = (Inl e, db', fx) \<Longrightarrow> POST env db = (POST_catch e, db', fx)"
  by (simp add: POST_def)

lemma example_findFirst:
  "findFirst [example_bill] (parseInt example_env ''41'') (parseInt example_env ''7'') = Some example_bill"
  by (simp add: findFirst_def example_env_def example_parseInt_def example_bill_def)

lemma example_load:
  "POST_try (example_env\<lparr>sendOrderStatusWhatsApp := f\<rparr>) [example_bill] =
     mutate_and_notify (example_env\<lparr>sendOrderStatusWhatsApp := f\<rparr>) \<lparr>user_id = ''7''\<rparr> example_bill
       ''CT123'' None [example_bill]"
proof -
  have "findFirst [example_bill] (Some 41) (Some 7) = Some example_bill"
    by (simp add: findFirst_def example_bill_def)
  moreover have "billingMode example_bill \<noteq> ''offline''" by (simp add: example_bill_def)
  ultimately show ?thesis
    by (simp add: POST_try_def load_and_update_def example_env_def example_parseInt_def)
qed

lemma example_mutation:
  "weight_data (example_env\<lparr>sendOrderStatusWhatsApp := f\<rparr>) None = None"
  "apply_data ''CT123'' None example_bill = shipped_bill"
  "update_where_id [example_bill] 10 ''CT123'' None = [shipped_bill]"
  "customer_phone_of shipped_bill = Some ''919876543210''"
  "rec_id example_bill = 10"
  by (simp_all add: weight_data_def apply_data_def shipped_bill_def update_where_id_def
      customer_phone_of_def example_bill_def)

lemma mutate_and_notify_cases:
  assumes "update_rejects env = None"
  shows "mutate_and_notify env sess existingBill tn w db =
    (case customer_phone_of (apply_data tn (weight_data env w) existingBill) of
       None \<Rightarrow>
         (Inr (Response 200 (SuccessBody (apply_data tn (weight_data env w) existingBill))),
          update_where_id db (rec_id existingBill) tn (weight_data env w),
          [Update (rec_id existingBill) tn (weight_data env w) ''shipped''])
     | Some customerPhone \<Rightarrow>
         (case sendOrderStatusWhatsApp env
                 (notification_args env sess (apply_data tn (weight_data env w) existingBill)
                    customerPhone tn w) of
            Inl e \<Rightarrow> Inl e
          | Inr delivered \<Rightarrow>
              Inr (Response 200 (SuccessBody (apply_data tn (weight_data env w) existingBill))),
          update_where_id db (rec_id existingBill) tn (weight_data env w),
          [Update (rec_id existingBill) tn (weight_data env w) ''shipped'',
           Notify (notification_args env sess (apply_data tn (weight_data env w) existingBill)
                    customerPhone tn w)]))"
  using assms by (simp add: mutate_and_notify_def Let_def split: option.splits sum.splits)

lemma example_update_accepted:
  "update_rejects (example_env\<lparr>sendOrderStatusWhatsApp := f\<rparr>) = None"
  by (simp add: example_env_def)

lemma example_env_reads:
  "getServerSession (example_env\<lparr>sendOrderStatusWhatsApp := f\<rparr>) = Inr (Some \<lparr>user_id = ''7''\<rparr>)"
  "request_json (example_env\<lparr>sendOrderStatusWhatsApp := f\<rparr>) = Inr example_body"
  "findFirst_rejects (example_env\<lparr>sendOrderStatusWhatsApp := f\<rparr>) = None"
  "parseInt (example_env\<lparr>sendOrderStatusWhatsApp := f\<rparr>) ''41'' = Some 41"
  "parseInt (example_env\<lparr>sendOrderStatusWhatsApp := f\<rparr>) ''7'' = Some 7"
  "sendOrderStatusWhatsApp (example_env\<lparr>sendOrderStatusWhatsApp := f\<rparr>) = f"
  "getServerSession example_env = Inr (Some \<lparr>user_id = ''7''\<rparr>)"
  "request_json example_env = Inr example_body"
  "findFirst_rejects example_env = None"
  "update_rejects example_env = None"
  "parseInt example_env ''41'' = Some 41"
  "parseInt example_env ''7'' = Some 7"
  by (simp_all add: example_env_def example_body_def example_parseInt_def)

lemma example_body_reads:
  "billId example_body = Some ''41''" "body_trackingNumber example_body = Some ''CT123''"
  "body_weight example_body = None"
  by (simp_all add: example_body_def)

lemma example_found:
  "findFirst [example_bill] (Some 41) (Some 7) = Some example_bill"
  "findFirst [offline_bill] (Some 41) (Some 7) = Some offline_bill"
  "billingMode example_bill \<noteq> ''offline''" "billingMode offline_bill = ''offline''"
  by (simp_all add: findFirst_def example_bill_def offline_bill_def)

text \<open>
  C2. For an authorized request with a bill number and a tracking number, whose loaded
  bill has the billing mode \<open>offline\<close>, the response is 400, the table is unchanged and
  no call is made. Whatever the request, an update is only ever made to a record of the
  table whose billing mode is not \<open>offline\<close>.
\<close>

theorem POST_offline_bill_rejected:
  "(\<forall>sess body bid tn existingBill.
      getServerSession env = Inr (Some sess) \<and> request_json env = Inr body
      \<and> billId body = Some bid \<and> bid \<noteq> [] \<and> body_trackingNumber body = Some tn \<and> tn \<noteq> []
      \<and> findFirst_rejects env = None
      \<and> findFirst db (parseInt env bid) (parseInt env (user_id sess)) = Some existingBill
      \<and> billingMode existingBill = ''offline'' \<longrightarrow>
      POST env db = (Inr (Response 400 (ErrorBody ''Tracking cannot be added to offline bills.'')), db, []))
   \<and> (\<forall>i t w s. Update i t w s \<in> set (snd (snd (POST env db))) \<longrightarrow>
        (\<exists>b. b \<in> set db \<and> rec_id b = i \<and> billingMode b \<noteq> ''offline''))"
proof (intro conjI allI impI)
  fix sess body bid tn existingBill
  assume h: "getServerSession env = Inr (Some sess) \<and> request_json env = Inr body
      \<and> billId body = Some bid \<and> bid \<noteq> [] \<and> body_trackingNumber body = Some tn \<and> tn \<noteq> []
      \<and> findFirst_rejects env = None
      \<and> findFirst db (parseInt env bid) (parseInt env (user_id sess)) = Some existingBill
      \<and> billingMode existingBill = ''offline''"
  then have s: "getServerSession env = Inr (Some sess)" and j: "request_json env = Inr body"
    and b: "billId body = Some bid" "bid \<noteq> []"
    and n: "body_trackingNumber body = Some tn" "tn \<noteq> []"
    and q: "findFirst_rejects env = None"
    and f: "findFirst db (parseInt env bid) (parseInt env (user_id sess)) = Some existingBill"
    and m: "billingMode existingBill = ''offline''"
    by simp_all
  have "POST_try env db = load_and_update env sess bid tn (body_weight body) db"
    using s j b n by (rule POST_reaches_load)
  also have "\<dots> =
    (Inr (Response 400 (ErrorBody ''Tracking cannot be added to offline bills.'')), db, [])"
    using q f m by (rule load_and_update_offline)
  finally show "POST env db =
    (Inr (Response 400 (ErrorBody ''Tracking cannot be added to offline bills.'')), db, [])"
    by (rule POST_of_returned)
next
  fix i t w s
  assume "Update i t w s \<in> set (snd (snd (POST env db)))"
  then show "\<exists>b. b \<in> set db \<and> rec_id b = i \<and> billingMode b \<noteq> ''offline''"
    unfolding POST_effects_eq by (rule POST_try_effects)
qed

theorem POST_offline_bill_rejected_witness:
  "billingMode offline_bill = ''offline''
   \<and> POST undelivered_env [offline_bill] =
       (Inr (Response 400 (ErrorBody ''Tracking cannot be added to offline bills.'')), [offline_bill], [])
   \<and> Update 10 ''CT123'' None ''shipped'' \<in> set (snd (snd (POST undelivered_env [example_bill])))
   \<and> (\<exists>b. b \<in> set [example_bill] \<and> rec_id b = 10 \<and> billingMode b \<noteq> ''offline'')"
proof -
  note t1 = POST_offline_bill_rejected [of undelivered_env "[offline_bill]", THEN conjunct1, rule_format,
      of "\<lparr>user_id = ''7''\<rparr>" example_body "''41''" "''CT123''" offline_bill]
  have a: "POST undelivered_env [offline_bill] =
       (Inr (Response 400 (ErrorBody ''Tracking cannot be added to offline bills.'')), [offline_bill], [])"
    by (rule t1) (simp add: undelivered_env_def example_env_reads example_body_reads example_found)
  have "POST_try undelivered_env [example_bill] =
      (Inr (Response 200 (SuccessBody shipped_bill)), [shipped_bill],
       [Update 10 ''CT123'' None ''shipped'',
        Notify (notification_args undelivered_env \<lparr>user_id = ''7''\<rparr> shipped_bill
                  ''919876543210'' ''CT123'' None)])"
    unfolding undelivered_env_def example_load
    by (simp add: mutate_and_notify_cases [OF example_update_accepted] example_mutation)
  then have u: "Update 10 ''CT123'' None ''shipped'' \<in> set (snd (snd (POST undelivered_env [example_bill])))"
    by (simp add: POST_def)
  note t2 = POST_offline_bill_rejected [of undelivered_env "[example_bill]", THEN conjunct2, rule_format]
  from t2 [OF u] have b: "\<exists>b. b \<in> set [example_bill] \<and> rec_id b = 10 \<and> billingMode b \<noteq> ''offline''" .
  from a u b example_found(4) show ?thesis by (intro conjI)
qed

text \<open>
  C1 (as stated, refuted). A request reaches the update, the bill is updated, and the
  notification call throws: the response is the 500 of the \<open>catch\<close> block, with the
  error's message, while the record stays updated.
\<close>

theorem POST_notification_throw_gives_500:
  "fst (POST throwing_env [example_bill]) = Inr (Response 500 (FailureBody ''provider unreachable''))
   \<and> fst (snd (POST throwing_env [example_bill])) = [shipped_bill]
   \<and> hd (snd (snd (POST throwing_env [example_bill]))) = Update 10 ''CT123'' None ''shipped''"
proof -
  have "POST_try throwing_env [example_bill] =
      (Inl (JsError ''Error'' ''provider unreachable''), [shipped_bill],
       [Update 10 ''CT123'' None ''shipped'',
        Notify (notification_args throwing_env \<lparr>user_id = ''7''\<rparr> shipped_bill
                  ''919876543210'' ''CT123'' None)])"
    unfolding throwing_env_def example_load
    by (simp add: mutate_and_notify_cases [OF example_update_accepted] example_mutation)
  then show ?thesis by (simp add: POST_def)
qed

lemma load_and_update_online:
  assumes "findFirst_rejects env = None"
    and "findFirst db (parseInt env bid) (parseInt env (user_id sess)) = Some existingBill"
    and "billingMode existingBill \<noteq> ''offline''"
  shows "load_and_update env sess bid tn w db = mutate_and_notify env sess existingBill tn w db"
  using assms by (simp add: load_and_update_def)

text \<open>
  C1 (amended). For every request that reaches the update, once the update has been
  applied: when the bill has no customer phone, or the notification call returns
  (whether or not the message was delivered), the handler returns the 200 success
  response with the updated bill. When the notification call throws an error, or any
  other value that is neither \<open>null\<close> nor \<open>undefined\<close>, the handler returns 500 with
  the thrown value's message, or \<open>Internal Error\<close> when it has none. When it throws
  \<open>null\<close> or \<open>undefined\<close>, the \<open>catch\<close> block's own read of \<open>error.message\<close>
  throws a \<open>TypeError\<close> and the handler returns no response. In each case the table
  holds the updated record.
\<close>

theorem POST_after_mutation:
  assumes "getServerSession env = Inr (Some sess)" and "request_json env = Inr body"
    and "billId body = Some bid" and "bid \<noteq> []"
    and "body_trackingNumber body = Some tn" and "tn \<noteq> []"
    and "findFirst_rejects env = None"
    and "findFirst db (parseInt env bid) (parseInt env (user_id sess)) = Some existingBill"
    and "billingMode existingBill \<noteq> ''offline''"
    and "update_rejects env = None"
    and "updatedBill = apply_data tn (weight_data env (body_weight body)) existingBill"
    and "db' = update_where_id db (rec_id existingBill) tn (weight_data env (body_weight body))"
    and "updated = Update (rec_id existingBill) tn (weight_data env (body_weight body)) ''shipped''"
  shows "(customer_phone_of updatedBill = None \<longrightarrow>
            POST env db = (Inr (Response 200 (SuccessBody updatedBill)), db', [updated]))
    \<and> (\<forall>customerPhone delivered.
          customer_phone_of updatedBill = Some customerPhone
          \<and> sendOrderStatusWhatsApp env
               (notification_args env sess updatedBill customerPhone tn (body_weight body))
              = Inr delivered \<longrightarrow>
          POST env db =
            (Inr (Response 200 (SuccessBody updatedBill)), db',
             [updated, Notify (notification_args env sess updatedBill customerPhone tn
                                 (body_weight body))]))
    \<and> (\<forall>customerPhone name message.
          customer_phone_of updatedBill = Some customerPhone
          \<and> sendOrderStatusWhatsApp env
               (notification_args env sess updatedBill customerPhone tn (body_weight body))
              = Inl (JsError name message) \<longrightarrow>
          POST env db =
            (Inr (Response 500
               (FailureBody (if message = [] then ''Internal Error'' else message))), db',
             [updated, Notify (notification_args env sess updatedBill customerPhone tn
                                 (body_weight body))]))
    \<and> (\<forall>customerPhone message v.
          customer_phone_of updatedBill = Some customerPhone
          \<and> sendOrderStatusWhatsApp env
               (notification_args env sess updatedBill customerPhone tn (body_weight body))
              = Inl (JsValue message v) \<longrightarrow>
          POST env db =
            (Inr (Response 500
               (FailureBody (if message = None \<or> message = Some [] then ''Internal Error''
                             else the message))), db',
             [updated, Notify (notification_args env sess updatedBill customerPhone tn
                                 (body_weight body))]))
    \<and> (\<forall>customerPhone.
          customer_phone_of updatedBill = Some customerPhone
          \<and> sendOrderStatusWhatsApp env
               (notification_args env sess updatedBill customerPhone tn (body_weight body))
              = Inl JsNull \<longrightarrow>
          POST env db =
            (Inl (JsError ''TypeError'' ''Cannot read properties of null (reading 'message')''),
             db',
             [updated, Notify (notification_args env sess updatedBill customerPhone tn
                                 (body_weight body))]))
    \<and> (\<forall>customerPhone.
          customer_phone_of updatedBill = Some customerPhone
          \<and> sendOrderStatusWhatsApp env
               (notification_args env sess updatedBill customerPhone tn (body_weight body))
              = Inl JsUndefined \<longrightarrow>
          POST env db =
            (Inl (JsError ''TypeError''
                    ''Cannot read properties of undefined (reading 'message')''),
             db',
             [updated, Notify (notification_args env sess updatedBill customerPhone tn
                                 (body_weight body))]))"
proof -
  have "POST_try env db = load_and_update env sess bid tn (body_weight body) db"
    using assms(1-6) by (rule POST_reaches_load)
  also have "\<dots> = mutate_and_notify env sess existingBill tn (body_weight body) db"
    using assms(7-9) by (rule load_and_update_online)
  finally have t: "POST_try env db =
      mutate_and_notify env sess existingBill tn (body_weight body) db" .
  show ?thesis
    unfolding POST_def t mutate_and_notify_cases [OF assms(10)] assms(11-13)
    by (auto split: option.splits)
qed

theorem POST_after_mutation_witness:
  "sendOrderStatusWhatsApp undelivered_env
      (notification_args undelivered_env \<lparr>user_id = ''7''\<rparr> shipped_bill ''919876543210'' ''CT123'' None)
     = Inr False
   \<and> fst (POST undelivered_env [example_bill]) = Inr (Response 200 (SuccessBody shipped_bill))
   \<and> fst (snd (POST undelivered_env [example_bill])) = [shipped_bill]
   \<and> sendOrderStatusWhatsApp throwing_env
      (notification_args throwing_env \<lparr>user_id = ''7''\<rparr> shipped_bill ''919876543210'' ''CT123'' None)
     = Inl (JsError ''Error'' ''provider unreachable'')
   \<and> fst (POST throwing_env [example_bill]) = Inr (Response 500 (FailureBody ''provider unreachable''))
   \<and> fst (snd (POST throwing_env [example_bill])) = [shipped_bill]
   \<and> sendOrderStatusWhatsApp null_throwing_env
      (notification_args null_throwing_env \<lparr>user_id = ''7''\<rparr> shipped_bill ''919876543210'' ''CT123'' None)
     = Inl JsNull
   \<and> fst (POST null_throwing_env [example_bill])
       = Inl (JsError ''TypeError'' ''Cannot read properties of null (reading 'message')'')
   \<and> fst (snd (POST null_throwing_env [example_bill])) = [shipped_bill]"
proof -
  have reach: "getServerSession (example_env\<lparr>sendOrderStatusWhatsApp := f\<rparr>) = Inr (Some \<lparr>user_id = ''7''\<rparr>)"
    "request_json (example_env\<lparr>sendOrderStatusWhatsApp := f\<rparr>) = Inr example_body"
    "billId example_body = Some ''41''" "''41'' \<noteq> []"
    "body_trackingNumber example_body = Some ''CT123''" "''CT123'' \<noteq> []"
    "findFirst_rejects (example_env\<lparr>sendOrderStatusWhatsApp := f\<rparr>) = None"
    "findFirst [example_bill] (parseInt (example_env\<lparr>sendOrderStatusWhatsApp := f\<rparr>) ''41'')
       (parseInt (example_env\<lparr>sendOrderStatusWhatsApp := f\<rparr>) (user_id \<lparr>user_id = ''7''\<rparr>)) = Some example_bill"
    "billingMode example_bill \<noteq> ''offline''"
    "update_rejects (example_env\<lparr>sendOrderStatusWhatsApp := f\<rparr>) = None" for f
    by (simp_all add: example_env_reads example_body_reads example_found example_update_accepted)
  note t = POST_after_mutation [OF reach refl refl refl]
  have s1: "sendOrderStatusWhatsApp undelivered_env
      (notification_args undelivered_env \<lparr>user_id = ''7''\<rparr> shipped_bill ''919876543210'' ''CT123'' None)
     = Inr False"
    by (simp add: undelivered_env_def example_env_reads)
  have s2: "sendOrderStatusWhatsApp throwing_env
      (notification_args throwing_env \<lparr>user_id = ''7''\<rparr> shipped_bill ''919876543210'' ''CT123'' None)
     = Inl (JsError ''Error'' ''provider unreachable'')"
    by (simp add: throwing_env_def example_env_reads)
  have s3: "sendOrderStatusWhatsApp null_throwing_env
      (notification_args null_throwing_env \<lparr>user_id = ''7''\<rparr> shipped_bill ''919876543210'' ''CT123'' None)
     = Inl JsNull"
    by (simp add: null_throwing_env_def example_env_reads)
  have p1: "POST undelivered_env [example_bill] =
      (Inr (Response 200 (SuccessBody shipped_bill)), [shipped_bill],
       [Update 10 ''CT123'' None ''shipped'',
        Notify (notification_args undelivered_env \<lparr>user_id = ''7''\<rparr> shipped_bill
                  ''919876543210'' ''CT123'' None)])"
    using t [of "\<lambda>args. Inr False", THEN conjunct2, THEN conjunct1, rule_format,
        of "''919876543210''" False] s1
    by (simp add: undelivered_env_def example_body_reads example_mutation)
  have p2: "POST throwing_env [example_bill] =
      (Inr (Response 500 (FailureBody ''provider unreachable'')), [shipped_bill],
       [Update 10 ''CT123'' None ''shipped'',
        Notify (notification_args throwing_env \<lparr>user_id = ''7''\<rparr> shipped_bill
                  ''919876543210'' ''CT123'' None)])"
    using t [of "\<lambda>args. Inl (JsError ''Error'' ''provider unreachable'')",
        THEN conjunct2, THEN conjunct2, THEN conjunct1, rule_format,
        of "''919876543210''" "''Error''" "''provider unreachable''"] s2
    by (simp add: throwing_env_def example_body_reads example_mutation)
  have p3: "POST null_throwing_env [example_bill] =
      (Inl (JsError ''TypeError'' ''Cannot read properties of null (reading 'message')''),
       [shipped_bill],
       [Update 10 ''CT123'' None ''shipped'',
        Notify (notification_args null_throwing_env \<lparr>user_id = ''7''\<rparr> shipped_bill
                  ''919876543210'' ''CT123'' None)])"
    using t [of "\<lambda>args. Inl JsNull",
        THEN conjunct2, THEN conjunct2, THEN conjunct2, THEN conjunct2, THEN conjunct1,
        rule_format, of "''919876543210''"] s3
    by (simp add: null_throwing_env_def example_body_reads example_mutation)
  from s1 s2 s3 p1 p2 p3 show ?thesis by simp
qed

end
